theory Spec2Isabelle
  imports Main "HOL-Library.Sublist"
begin

section \<open>Strings\<close>

text \<open>
  A Python \<open>str\<close> is modelled as a \<open>string\<close>, read as the UTF-8 bytes of the text.
  Every keyword, trigger and table key of the program is ASCII, and an ASCII byte never
  occurs inside the encoding of another code point, so the substring test and the
  equality test against them agree on bytes and on code points.

  \<open>str.lower\<close> maps the ASCII capitals to their small letters. Two code points
  outside ASCII have a lowercase that holds an ASCII letter: U+212A (the Kelvin sign,
  bytes E2 84 AA) becomes \<open>k\<close>, and U+0130 (capital I with dot above, bytes C4 B0)
  becomes \<open>i\<close> followed by U+0307 (bytes CC 87). Every other code point outside ASCII
  lowercases to code points outside ASCII; the model leaves its bytes as they are,
  which no test against an ASCII keyword or key can tell apart.
\<close>

definition py_lower_char :: "char \<Rightarrow> char" where
  "py_lower_char c =
     (let n = (of_char c :: nat) in if 65 \<le> n \<and> n \<le> 90 then char_of (n + 32) else c)"

fun py_lower :: "string \<Rightarrow> string" where
  "py_lower (a # b # c # cs) =
     (if a = CHR 0xE2 \<and> b = CHR 0x84 \<and> c = CHR 0xAA then CHR ''k'' # py_lower cs
      else if a = CHR 0xC4 \<and> b = CHR 0xB0 then
        CHR ''i'' # CHR 0xCC # CHR 0x87 # py_lower (c # cs)
      else py_lower_char a # py_lower (b # c # cs))"
| "py_lower [a, b] =
     (if a = CHR 0xC4 \<and> b = CHR 0xB0 then [CHR ''i'', CHR 0xCC, CHR 0x87]
      else [py_lower_char a, py_lower_char b])"
| "py_lower [a] = [py_lower_char a]"
| "py_lower [] = []"

declare py_lower.simps [simp del]

text \<open>\<open>k in msg\<close> on strings: \<open>k\<close> occurs in \<open>msg\<close> as a contiguous run.\<close>

primrec py_in :: "string \<Rightarrow> string \<Rightarrow> bool" where
  "py_in k [] = (k = [])"
| "py_in k (c # cs) = (prefix k (c # cs) \<or> py_in k cs)"

section \<open>Intent classification\<close>

text \<open>The keyword lists and phrase lists of \<open>classify_intent\<close>, in the source's order.\<close>

definition research_kw :: "string list" where
  "research_kw = [''research'', ''case law'', ''precedent'', ''statute'', ''find'', ''search'',
     ''cite'', ''citation'', ''authority'', ''holding'', ''ruling'', ''sol'',
     ''limitation'', ''rule'', ''regulation'', ''code'', ''preemption'']"

definition ks_phrases :: "string list" where
  "ks_phrases = [''k.s.a'', ''ksa '', ''kansas statute'', ''chapter 60'', ''10th circuit'']"

definition mo_phrases :: "string list" where
  "mo_phrases = [''rsmo'', ''r.s.mo'', ''missouri statute'', ''missouri supreme court rule'',
     ''8th circuit'']"

definition draft_kw :: "string list" where
  "draft_kw = [''draft'', ''write'', ''prepare'', ''create'', ''generate'', ''motion'',
     ''complaint'', ''letter'', ''brief'', ''contract'', ''agreement'', ''petition'',
     ''template'', ''engagement'', ''demand'', ''discovery request'']"

definition draft_phrases :: "string list" where
  "draft_phrases = [''draft a'', ''draft the'', ''draft my'']"

definition analyst_kw :: "string list" where
  "analyst_kw = [''risk'', ''assess'', ''evaluat'', ''analyz'', ''review'', ''strength'',
     ''weakness'', ''exposure'', ''damage'', ''inconsisten'', ''deposition'', ''enforceab'',
     ''score'', ''audit'', ''calculate'', ''comparative fault'']"

definition strategist_kw :: "string list" where
  "strategist_kw = [''strateg'', ''settle'', ''settlement'', ''timeline'', ''calendar'',
     ''deadline'', ''budget'', ''scenario'', ''option'', ''plan'', ''mediat'', ''arbitrat'',
     ''trial'', ''recommend'', ''proactive'', ''missing'', ''next step'', ''appeal'']"

text \<open>
  The loop \<open>for k in kws: if k in msg: score += 3\<close>, as a fold over the list from the
  running score.
\<close>

definition kw_loop :: "string list \<Rightarrow> string \<Rightarrow> int \<Rightarrow> int" where
  "kw_loop kws msg score = fold (\<lambda>k s. if py_in k msg then s + 3 else s) kws score"

text \<open>\<open>any(p in msg for p in ps)\<close>.\<close>

definition any_in :: "string list \<Rightarrow> string \<Rightarrow> bool" where
  "any_in ps msg = list_ex (\<lambda>p. py_in p msg) ps"

text \<open>The four accumulated scores, each on the lowercased message \<open>msg\<close>.\<close>

definition researcher_score :: "string \<Rightarrow> int" where
  "researcher_score msg =
     (let s = kw_loop research_kw msg 0;
          s = (if any_in ks_phrases msg then s + 6 else s);
          s = (if any_in mo_phrases msg then s + 6 else s)
      in s)"

definition drafter_score :: "string \<Rightarrow> int" where
  "drafter_score msg =
     (let s = kw_loop draft_kw msg 0;
          s = (if py_in ''draft a'' msg \<or> py_in ''draft the'' msg \<or> py_in ''draft my'' msg
               then s + 5 else s);
          s = (if py_in ''motion to'' msg then s + 6 else s)
      in s)"

definition analyst_score :: "string \<Rightarrow> int" where
  "analyst_score msg =
     (let s = kw_loop analyst_kw msg 0;
          s = (if py_in ''risk assess'' msg then s + 5 else s);
          s = (if py_in ''what am i missing'' msg then s + 4 else s)
      in s)"

definition strategist_score :: "string \<Rightarrow> int" where
  "strategist_score msg =
     (let s = kw_loop strategist_kw msg 0;
          s = (if py_in ''what am i missing'' msg then s + 5 else s)
      in s)"

text \<open>
  The dictionary \<open>scores\<close> when the winner is sought, as an association list in the
  dictionary's insertion order (the order of the literal that creates it: researcher,
  analyst, drafter, strategist).
\<close>

definition scores :: "string \<Rightarrow> (string \<times> int) list" where
  "scores message =
     (let msg = py_lower message in
      [(''researcher'', researcher_score msg), (''analyst'', analyst_score msg),
       (''drafter'', drafter_score msg), (''strategist'', strategist_score msg)])"

text \<open>
  \<open>max(scores, key=scores.get)\<close>: the keys are visited in insertion order and the
  running best is replaced only by a strictly greater score. \<open>max_from\<close> is the scan
  from a running best; \<open>py_max_key\<close> starts it at the first key. (On an empty
  dictionary Python raises; \<open>scores\<close> always holds four keys.)
\<close>

fun max_from :: "string \<times> int \<Rightarrow> (string \<times> int) list \<Rightarrow> string \<times> int" where
  "max_from best [] = best"
| "max_from best (kv # rest) = max_from (if snd kv > snd best then kv else best) rest"

fun py_max_key :: "(string \<times> int) list \<Rightarrow> string \<times> int" where
  "py_max_key (kv # rest) = max_from kv rest"
| "py_max_key [] = ([], 0)"

definition classify_intent :: "string \<Rightarrow> string" where
  "classify_intent message =
     (let best = py_max_key (scores message)
      in if snd best > 0 then fst best else ''strategist'')"

section \<open>Agents and task templates\<close>

text \<open>
  An \<open>Agent\<close> of the external library, by its role title. Its goal, backstory and
  system prompt are fixed authored text handed to the library unread by this program,
  and are left out.
\<close>

record agent =
  role :: string

definition researcher :: agent where
  "researcher = \<lparr>role = ''Researcher Agent''\<rparr>"

definition analyst :: agent where
  "analyst = \<lparr>role = ''Analyst Agent''\<rparr>"

definition drafter :: agent where
  "drafter = \<lparr>role = ''Drafter Agent''\<rparr>"

definition strategist :: agent where
  "strategist = \<lparr>role = ''Strategist Agent''\<rparr>"

text \<open>The dictionary \<open>create_agents\<close> returns, in insertion order.\<close>

definition create_agents :: "(string \<times> agent) list" where
  "create_agents = [(''researcher'', researcher), (''analyst'', analyst),
     (''drafter'', drafter), (''strategist'', strategist)]"

record task =
  description :: string
  agent :: agent
  expected_output :: string

text \<open>\<open>x or d\<close> on strings: the default when \<open>x\<close> is empty.\<close>

definition str_or :: "string \<Rightarrow> string \<Rightarrow> string" where
  "str_or x d = (if x = [] then d else x)"

definition create_research_task :: "agent \<Rightarrow> string \<Rightarrow> string \<Rightarrow> task" where
  "create_research_task ag query jurisdiction =
     \<lparr>description =
        ''Research the following legal question under '' @ jurisdiction @ '' law:\<newline>\<newline>''
        @ query @ ''\<newline>\<newline>''
        @ ''Provide:\<newline>''
        @ ''1. Relevant statutes with pinpoint citations and URLs\<newline>''
        @ ''2. Key case law with holdings and citations\<newline>''
        @ ''3. SOL analysis and deadline flags\<newline>''
        @ ''4. Comparative fault implications (KS 50% bar / MO pure comparative)\<newline>''
        @ ''5. Procedural requirements specific to '' @ jurisdiction @ ''\<newline>''
        @ ''6. Risks and verification notes\<newline>''
        @ ''7. Recommended next actions'',
      agent = ag,
      expected_output =
        ''Structured legal research memo with: Summary, Statutory Authority ''
        @ ''(with URLs), Case Law, SOL & Comparative Fault flags, Procedural ''
        @ ''Framework, Risks, and Next Actions.''\<rparr>"

definition create_analysis_task :: "agent \<Rightarrow> string \<Rightarrow> string \<Rightarrow> string \<Rightarrow> task" where
  "create_analysis_task ag query jurisdiction matter_facts =
     \<lparr>description =
        ''Perform a comprehensive risk analysis for the following matter ''
        @ ''under '' @ jurisdiction @ '' law:\<newline>\<newline>''
        @ ''Query: '' @ query @ ''\<newline>''
        @ ''Matter Facts: '' @ str_or matter_facts ''Not specified'' @ ''\<newline>\<newline>''
        @ ''Score risks 1-10 on these factors:\<newline>''
        @ ''- Liability Exposure\<newline>''
        @ ''- Damages/Exposure\<newline>''
        @ ''- SOL/Deadlines\<newline>''
        @ ''- Comparative Fault Risk\<newline>''
        @ ''- Evidence Gaps\<newline>''
        @ ''- Deadline Management\<newline>\<newline>''
        @ ''Include SWOT analysis and damages scenarios.'',
      agent = ag,
      expected_output =
        ''Risk scorecard (table with factor/score/risk/notes), overall risk ''
        @ ''rating, SWOT analysis, comparative fault analysis, damages scenarios, ''
        @ ''and recommended actions.''\<rparr>"

definition create_drafting_task ::
  "agent \<Rightarrow> string \<Rightarrow> string \<Rightarrow> string \<Rightarrow> string \<Rightarrow> task" where
  "create_drafting_task ag query jurisdiction document_type matter_facts =
     (let doc_type = str_or document_type ''legal document'' in
      \<lparr>description =
         ''Draft a '' @ doc_type @ '' under '' @ jurisdiction @ '' law:\<newline>\<newline>''
         @ ''Instructions: '' @ query @ ''\<newline>''
         @ ''Matter Facts: '' @ str_or matter_facts ''General template'' @ ''\<newline>\<newline>''
         @ ''Include all required sections per '' @ jurisdiction @ '' rules:\<newline>''
         @ ''- Proper caption and formatting\<newline>''
         @ ''- All substantive sections\<newline>''
         @ ''- Jurisdiction-specific requirements\<newline>''
         @ ''- Certificate of Service\<newline>''
         @ ''- Citation footnotes'',
       agent = ag,
       expected_output =
         ''Complete '' @ doc_type @ '' in Markdown format with proper caption, ''
         @ ''all required sections, jurisdiction-specific requirements, ''
         @ ''citations with [Footnote] format, and review checklist.''\<rparr>)"

definition create_strategy_task :: "agent \<Rightarrow> string \<Rightarrow> string \<Rightarrow> string \<Rightarrow> task" where
  "create_strategy_task ag query jurisdiction matter_facts =
     \<lparr>description =
        ''Develop a litigation strategy for the following under '' @ jurisdiction
        @ '' law:\<newline>\<newline>''
        @ ''Query: '' @ query @ ''\<newline>''
        @ ''Matter Facts: '' @ str_or matter_facts ''Not specified'' @ ''\<newline>\<newline>''
        @ ''Provide:\<newline>''
        @ ''1. Three settlement strategy options with expected value calculations\<newline>''
        @ ''2. Litigation timeline with key deadlines\<newline>''
        @ ''3. Budget projection\<newline>''
        @ ''4. Venue/forum selection analysis (if multi-state)\<newline>''
        @ ''5. Proactive 'what am I missing?' checklist\<newline>''
        @ ''6. Recommended next 3 actions'',
      agent = ag,
      expected_output =
        ''Strategic plan with: settlement options (3 scenarios with $$ ranges), ''
        @ ''timeline table, budget projection, venue analysis, proactive checklist, ''
        @ ''and prioritized next actions.''\<rparr>"

section \<open>Jurisdiction display\<close>

definition jx_table :: "(string \<times> string) list" where
  "jx_table = [(''kansas'', ''Kansas''), (''missouri'', ''Missouri''),
     (''federal'', ''Federal''), (''multistate'', ''Kansas & Missouri'')]"

text \<open>\<open>{...}.get(jurisdiction.lower(), jurisdiction)\<close>.\<close>

definition jx_display :: "string \<Rightarrow> string" where
  "jx_display jurisdiction =
     (case map_of jx_table (py_lower jurisdiction) of
        Some d \<Rightarrow> d
      | None \<Rightarrow> jurisdiction)"

section \<open>Results, exceptions and the external executor\<close>

text \<open>
  The exceptions the bodies of \<open>run_single_agent\<close> and \<open>run_full_crew\<close> can meet, all
  of the class \<open>Exception\<close> that their handler catches: the \<open>KeyError\<close> of a missing
  dictionary key, and any exception raised by the external library, with its message.
\<close>

datatype exn = KeyError string | Failure string

text \<open>
  The values stored in a result dictionary. \<open>PyExnStr e\<close> is the text \<open>str(e)\<close> of the
  caught exception; \<open>PyUsage n\<close> is a usage object with \<open>n\<close> total tokens and
  \<open>PyEmptyDict\<close> the default \<open>{}\<close> of \<open>getattr(result, "token_usage", {})\<close>.
\<close>

datatype pyval =
    PyBool bool
  | PyStr string
  | PyInt int
  | PyStrList "string list"
  | PyUsage nat
  | PyEmptyDict
  | PyExnStr exn

type_synonym pydict = "(string \<times> pyval) list"

text \<open>What \<open>crew.kickoff()\<close> returns: \<open>raw\<close> is \<open>str(result)\<close>.\<close>

record crew_output =
  raw :: string
  token_usage :: "nat option"

definition usage_value :: "crew_output \<Rightarrow> pyval" where
  "usage_value result = (case token_usage result of Some n \<Rightarrow> PyUsage n | None \<Rightarrow> PyEmptyDict)"

text \<open>
  The process environment of one invocation: the model name \<open>get_llm_config()["model"]\<close>
  resolves to, and the exception (if any) that building the LLM client and the agents
  (\<open>create_llm()\<close>, \<open>create_agents(llm)\<close>) raises.
\<close>

record env =
  config_model :: string
  setup_failure :: "exn option"

text \<open>
  The external executor: building a \<open>Crew\<close> over agents and tasks and calling
  \<open>kickoff()\<close> on it. It is a parameter of the orchestrator: from the state \<open>'w\<close> of
  the outside world it either raises or returns an output, and leaves a new state.
\<close>

type_synonym 'w kickoff = "'w \<Rightarrow> agent list \<Rightarrow> task list \<Rightarrow> (exn + crew_output) \<times> 'w"

section \<open>Single-agent execution\<close>

text \<open>
  The steps of \<open>run_single_agent\<close> between the set-up and the kickoff: the role is
  resolved, the agent is looked up (a missing key raises), the jurisdiction is
  rendered and the task is built. The resolved \<open>agent_type\<close> is returned as well,
  since the handler reads it.
\<close>

definition single_agent_plan ::
  "string \<Rightarrow> string \<Rightarrow> string \<Rightarrow> string \<Rightarrow> string \<Rightarrow> string \<times> (exn + agent \<times> task)" where
  "single_agent_plan query jurisdiction agent_type matter_facts document_type =
     (let agent_type = (if agent_type = [] then classify_intent query else agent_type) in
      (agent_type,
       case map_of create_agents agent_type of
         None \<Rightarrow> Inl (KeyError agent_type)
       | Some ag \<Rightarrow>
           (let jx = jx_display jurisdiction;
                tsk =
                  (if agent_type = ''researcher'' then create_research_task ag query jx
                   else if agent_type = ''analyst'' then
                     create_analysis_task ag query jx matter_facts
                   else if agent_type = ''drafter'' then
                     create_drafting_task ag query jx document_type matter_facts
                   else if agent_type = ''strategist'' then
                     create_strategy_task ag query jx matter_facts
                   else create_research_task ag query jx)
            in Inr (ag, tsk))))"

text \<open>The dictionary of the \<open>except\<close> branch of \<open>run_single_agent\<close>.\<close>

definition single_failure :: "string \<Rightarrow> exn \<Rightarrow> string \<Rightarrow> pydict" where
  "single_failure agent_type e jurisdiction =
     [(''success'', PyBool False),
      (''agent_type'', PyStr (str_or agent_type ''unknown'')),
      (''error'', PyExnStr e),
      (''content'', PyStr []),
      (''jurisdiction'', PyStr jurisdiction)]"

definition run_single_agent ::
  "'w kickoff \<Rightarrow> env \<Rightarrow> 'w \<Rightarrow> string \<Rightarrow> string \<Rightarrow> string \<Rightarrow> string \<Rightarrow> string \<Rightarrow> pydict \<times> 'w" where
  "run_single_agent kickoff ev w query jurisdiction agent_type matter_facts document_type =
     (case setup_failure ev of
        Some e \<Rightarrow> (single_failure agent_type e jurisdiction, w)
      | None \<Rightarrow>
          (case single_agent_plan query jurisdiction agent_type matter_facts document_type of
             (agent_type, Inl e) \<Rightarrow> (single_failure agent_type e jurisdiction, w)
           | (agent_type, Inr (ag, tsk)) \<Rightarrow>
               (case kickoff w [ag] [tsk] of
                  (Inl e, w') \<Rightarrow> (single_failure agent_type e jurisdiction, w')
                | (Inr result, w') \<Rightarrow>
                    ([(''success'', PyBool True),
                      (''agent_type'', PyStr agent_type),
                      (''content'', PyStr (raw result)),
                      (''jurisdiction'', PyStr jurisdiction),
                      (''model'', PyStr (config_model ev)),
                      (''token_usage'', usage_value result)], w'))))"

section \<open>Full-crew execution\<close>

definition drafter_triggers :: "string list" where
  "drafter_triggers = [''draft'', ''write'', ''prepare'', ''motion'', ''complaint'', ''letter'']"

text \<open>The task list \<open>run_full_crew\<close> builds before the kickoff.\<close>

definition full_crew_tasks :: "string \<Rightarrow> string \<Rightarrow> string \<Rightarrow> string \<Rightarrow> task list" where
  "full_crew_tasks query jurisdiction matter_facts document_type =
     (let jx = jx_display jurisdiction;
          tasks = [create_research_task researcher query jx,
                   create_analysis_task analyst query jx matter_facts];
          tasks = (if document_type \<noteq> [] \<or> any_in drafter_triggers (py_lower query)
                   then tasks @ [create_drafting_task drafter query jx document_type matter_facts]
                   else tasks);
          tasks = tasks @ [create_strategy_task strategist query jx matter_facts]
      in tasks)"

text \<open>The dictionary of the \<open>except\<close> branch of \<open>run_full_crew\<close>.\<close>

definition full_failure :: "exn \<Rightarrow> string \<Rightarrow> pydict" where
  "full_failure e jurisdiction =
     [(''success'', PyBool False),
      (''agent_type'', PyStr ''full_crew''),
      (''error'', PyExnStr e),
      (''content'', PyStr []),
      (''jurisdiction'', PyStr jurisdiction)]"

definition run_full_crew ::
  "'w kickoff \<Rightarrow> env \<Rightarrow> 'w \<Rightarrow> string \<Rightarrow> string \<Rightarrow> string \<Rightarrow> string \<Rightarrow> pydict \<times> 'w" where
  "run_full_crew kickoff ev w query jurisdiction matter_facts document_type =
     (case setup_failure ev of
        Some e \<Rightarrow> (full_failure e jurisdiction, w)
      | None \<Rightarrow>
          (let tasks = full_crew_tasks query jurisdiction matter_facts document_type in
           case kickoff w (map snd create_agents) tasks of
             (Inl e, w') \<Rightarrow> (full_failure e jurisdiction, w')
           | (Inr result, w') \<Rightarrow>
               ([(''success'', PyBool True),
                 (''agent_type'', PyStr ''full_crew''),
                 (''content'', PyStr (raw result)),
                 (''jurisdiction'', PyStr jurisdiction),
                 (''model'', PyStr (config_model ev)),
                 (''agents_used'', PyStrList (map fst create_agents)),
                 (''tasks_completed'', PyInt (int (length tasks))),
                 (''token_usage'', usage_value result)], w')))"

section \<open>The sequential executor\<close>

text \<open>
  Modelled from the spec: the step-by-step behaviour of \<open>Crew.kickoff()\<close> under
  \<open>Process.sequential\<close>, which is code of the external library and not of this
  repository. The spec (4.3, 6) says: the tasks are executed strictly sequentially,
  one Completion Engine call \<open>complete(persona, taskDescription, expectedOutputSpec)\<close>
  each, returning text and token usage; a failure of the engine at any step aborts
  the remaining steps; the aggregate content is the final step's text.
  The engine is any function from its own state and a task (which carries its
  persona) to a failure or a completion and a new state. The world is the engine
  state and the log of the calls issued so far.
\<close>

record completion =
  text_out :: string
  total_tokens :: nat

type_synonym 's engine = "'s \<Rightarrow> task \<Rightarrow> (exn + completion) \<times> 's"

fun execute_tasks ::
  "'s engine \<Rightarrow> task list \<Rightarrow> completion list \<Rightarrow> 's \<times> task list
     \<Rightarrow> (exn + completion list) \<times> ('s \<times> task list)" where
  "execute_tasks eng [] acc w = (Inr acc, w)"
| "execute_tasks eng (t # ts) acc (s, calls) =
     (case eng s t of
        (Inl e, s') \<Rightarrow> (Inl e, (s', calls @ [t]))
      | (Inr c, s') \<Rightarrow> execute_tasks eng ts (acc @ [c]) (s', calls @ [t]))"

definition crew_kickoff :: "'s engine \<Rightarrow> ('s \<times> task list) kickoff" where
  "crew_kickoff eng w agents tasks =
     (case execute_tasks eng tasks [] w of
        (Inl e, w') \<Rightarrow> (Inl e, w')
      | (Inr cs, w') \<Rightarrow>
          (Inr \<lparr>raw = (case rev cs of [] \<Rightarrow> [] | c # _ \<Rightarrow> text_out c),
                token_usage = Some (sum_list (map total_tokens cs))\<rparr>, w'))"

section \<open>Exceptions the handler does not catch\<close>

text \<open>
  Both functions wrap their body in \<open>try: ... except Exception as e:\<close>. An exception
  that is not of class \<open>Exception\<close> (\<open>KeyboardInterrupt\<close>, \<open>SystemExit\<close>,
  \<open>GeneratorExit\<close>) passes the handler and reaches the caller. \<open>raised\<close> tells the two
  kinds apart: \<open>Caught e\<close> for an exception of class \<open>Exception\<close>, \<open>Uncaught b\<close> for
  one outside it, by its name. \<open>run_single_agent_any\<close> and \<open>run_full_crew_any\<close> are the
  two functions over a set-up and an executor that may raise either kind: the outcome
  is the returned dictionary (\<open>Inr\<close>) or the propagated exception (\<open>Inl\<close>).
  \<open>run_single_agent\<close> and \<open>run_full_crew\<close> above are these functions when only
  exceptions of class \<open>Exception\<close> are raised (\<open>caught_only\<close>, \<open>caught_env\<close>).
\<close>

datatype raised = Caught exn | Uncaught string

type_synonym 'w kickoff_any =
  "'w \<Rightarrow> agent list \<Rightarrow> task list \<Rightarrow> (raised + crew_output) \<times> 'w"

record env_any =
  config_model_any :: string
  setup_raises :: "raised option"

definition run_single_agent_any ::
  "'w kickoff_any \<Rightarrow> env_any \<Rightarrow> 'w \<Rightarrow> string \<Rightarrow> string \<Rightarrow> string \<Rightarrow> string \<Rightarrow> string
     \<Rightarrow> (string + pydict) \<times> 'w" where
  "run_single_agent_any kickoff ev w query jurisdiction agent_type matter_facts document_type =
     (case setup_raises ev of
        Some (Uncaught b) \<Rightarrow> (Inl b, w)
      | Some (Caught e) \<Rightarrow> (Inr (single_failure agent_type e jurisdiction), w)
      | None \<Rightarrow>
          (case single_agent_plan query jurisdiction agent_type matter_facts document_type of
             (agent_type, Inl e) \<Rightarrow> (Inr (single_failure agent_type e jurisdiction), w)
           | (agent_type, Inr (ag, tsk)) \<Rightarrow>
               (case kickoff w [ag] [tsk] of
                  (Inl (Uncaught b), w') \<Rightarrow> (Inl b, w')
                | (Inl (Caught e), w') \<Rightarrow> (Inr (single_failure agent_type e jurisdiction), w')
                | (Inr result, w') \<Rightarrow>
                    (Inr [(''success'', PyBool True),
                      (''agent_type'', PyStr agent_type),
                      (''content'', PyStr (raw result)),
                      (''jurisdiction'', PyStr jurisdiction),
                      (''model'', PyStr (config_model_any ev)),
                      (''token_usage'', usage_value result)], w'))))"

definition run_full_crew_any ::
  "'w kickoff_any \<Rightarrow> env_any \<Rightarrow> 'w \<Rightarrow> string \<Rightarrow> string \<Rightarrow> string \<Rightarrow> string
     \<Rightarrow> (string + pydict) \<times> 'w" where
  "run_full_crew_any kickoff ev w query jurisdiction matter_facts document_type =
     (case setup_raises ev of
        Some (Uncaught b) \<Rightarrow> (Inl b, w)
      | Some (Caught e) \<Rightarrow> (Inr (full_failure e jurisdiction), w)
      | None \<Rightarrow>
          (let tasks = full_crew_tasks query jurisdiction matter_facts document_type in
           case kickoff w (map snd create_agents) tasks of
             (Inl (Uncaught b), w') \<Rightarrow> (Inl b, w')
           | (Inl (Caught e), w') \<Rightarrow> (Inr (full_failure e jurisdiction), w')
           | (Inr result, w') \<Rightarrow>
               (Inr [(''success'', PyBool True),
                 (''agent_type'', PyStr ''full_crew''),
                 (''content'', PyStr (raw result)),
                 (''jurisdiction'', PyStr jurisdiction),
                 (''model'', PyStr (config_model_any ev)),
                 (''agents_used'', PyStrList (map fst create_agents)),
                 (''tasks_completed'', PyInt (int (length tasks))),
                 (''token_usage'', usage_value result)], w')))"

definition caught_only :: "'w kickoff \<Rightarrow> 'w kickoff_any" where
  "caught_only kickoff w agents tasks =
     (case kickoff w agents tasks of
        (Inl e, w') \<Rightarrow> (Inl (Caught e), w')
      | (Inr result, w') \<Rightarrow> (Inr result, w'))"

definition caught_env :: "env \<Rightarrow> env_any" where
  "caught_env ev =
     \<lparr>config_model_any = config_model ev,
      setup_raises = (case setup_failure ev of None \<Rightarrow> None | Some e \<Rightarrow> Some (Caught e))\<rparr>"

definition is_uncaught :: "raised + crew_output \<Rightarrow> bool" where
  "is_uncaught r = (case r of Inl (Uncaught b) \<Rightarrow> True | _ \<Rightarrow> False)"

section \<open>Task kinds\<close>

text \<open>
  The four task templates as a type, to name the template a task was built from:
  \<open>task_of_kind\<close> calls the template of a kind, and \<open>task_kind_of\<close> is the choice the
  \<open>if\<close>/\<open>elif\<close> chain of \<open>run_single_agent\<close> makes from the resolved role.
\<close>

datatype task_kind = Research | Analysis | Drafting | Strategy

definition task_of_kind ::
  "task_kind \<Rightarrow> agent \<Rightarrow> string \<Rightarrow> string \<Rightarrow> string \<Rightarrow> string \<Rightarrow> task" where
  "task_of_kind k ag query jx matter_facts document_type =
     (case k of
        Research \<Rightarrow> create_research_task ag query jx
      | Analysis \<Rightarrow> create_analysis_task ag query jx matter_facts
      | Drafting \<Rightarrow> create_drafting_task ag query jx document_type matter_facts
      | Strategy \<Rightarrow> create_strategy_task ag query jx matter_facts)"

definition task_kind_of :: "string \<Rightarrow> task_kind" where
  "task_kind_of agent_type =
     (if agent_type = ''researcher'' then Research
      else if agent_type = ''analyst'' then Analysis
      else if agent_type = ''drafter'' then Drafting
      else if agent_type = ''strategist'' then Strategy
      else Research)"

section \<open>The classifier's signals, for stating its properties\<close>

text \<open>
  Every keyword and phrase \<open>classify_intent\<close> tests, gathered: \<open>other_signals\<close> are
  those that are neither a generic researcher keyword nor a generic analyst keyword.
\<close>

definition other_signals :: "string list" where
  "other_signals = ks_phrases @ mo_phrases @ draft_kw @ draft_phrases @ [''motion to'']
     @ [''risk assess'', ''what am i missing''] @ strategist_kw"

definition all_signals :: "string list" where
  "all_signals = research_kw @ analyst_kw @ other_signals"

section \<open>Concrete executors and engines\<close>

text \<open>
  A kickoff that returns an output, one that raises, one that is interrupted, an
  environment whose set-up succeeds, an engine that fails on its second call and one
  that never fails (their state counts the calls made): the inputs at which the
  theorems below are evaluated.
\<close>

definition succeeding_kickoff :: "unit kickoff" where
  "succeeding_kickoff w agents tasks = (Inr \<lparr>raw = ''memo'', token_usage = Some 42\<rparr>, w)"

definition raising_kickoff :: "unit kickoff" where
  "raising_kickoff w agents tasks = (Inl (Failure ''timeout''), w)"

definition plain_env :: env where
  "plain_env = \<lparr>config_model = ''gpt-5-mini'', setup_failure = None\<rparr>"

definition fails_on_second :: "nat engine" where
  "fails_on_second n t =
     (if n = 1 then (Inl (Failure ''timeout''), Suc n)
      else (Inr \<lparr>text_out = ''part'', total_tokens = 10\<rparr>, Suc n))"

definition always_succeeds :: "nat engine" where
  "always_succeeds n t = (Inr \<lparr>text_out = ''part'', total_tokens = 10\<rparr>, Suc n)"

definition interrupted_kickoff :: "unit kickoff_any" where
  "interrupted_kickoff w agents tasks = (Inl (Uncaught ''KeyboardInterrupt''), w)"

definition plain_env_any :: env_any where
  "plain_env_any = \<lparr>config_model_any = ''gpt-5-mini'', setup_raises = None\<rparr>"

text \<open>The UTF-8 bytes of U+212A, the Kelvin sign.\<close>

definition kelvin :: string where
  "kelvin = [CHR 0xE2, CHR 0x84, CHR 0xAA]"

section \<open>Properties of the classifier\<close>

lemma py_in_sublist: "py_in k msg = sublist k msg"
  by (induction msg) (auto simp: sublist_Cons_right)

lemma kw_loop_shift: "kw_loop kws msg s = s + kw_loop kws msg 0"
proof (induction kws arbitrary: s)
  case Nil
  then show ?case by (simp add: kw_loop_def)
next
  case (Cons k kws)
  have step: "kw_loop (k # kws) msg t = kw_loop kws msg (if py_in k msg then t + 3 else t)"
    for t by (simp add: kw_loop_def)
  show ?case
    using Cons.IH [of "s + 3"] Cons.IH [of s] Cons.IH [of 3] Cons.IH [of 0]
    by (simp add: step)
qed

lemma kw_loop_count:
  "kw_loop kws msg 0 = 3 * int (length (filter (\<lambda>k. py_in k msg) kws))"
proof (induction kws)
  case Nil
  then show ?case by (simp add: kw_loop_def)
next
  case (Cons k kws)
  have "kw_loop (k # kws) msg 0 = kw_loop kws msg (if py_in k msg then 3 else 0)"
    by (simp add: kw_loop_def)
  also have "\<dots> = (if py_in k msg then 3 else 0) + kw_loop kws msg 0"
    by (rule kw_loop_shift)
  finally show ?case using Cons.IH by simp
qed

lemma any_in_append: "any_in (xs @ ys) msg = (any_in xs msg \<or> any_in ys msg)"
  by (auto simp: any_in_def list_ex_iff)

lemma any_in_Cons: "any_in (x # xs) msg = (py_in x msg \<or> any_in xs msg)"
  by (simp add: any_in_def)

lemma kw_loop_no_hit: "\<not> any_in kws msg \<Longrightarrow> kw_loop kws msg 0 = 0"
  by (simp add: kw_loop_count any_in_def list_ex_iff filter_empty_conv)

lemma kw_loop_one_hit:
  "length (filter (\<lambda>k. py_in k msg) kws) = 1 \<Longrightarrow> kw_loop kws msg 0 = 3"
  by (simp add: kw_loop_count)

lemma scores_quiet:
  assumes "\<not> any_in other_signals msg"
  shows "drafter_score msg = 0" and "strategist_score msg = 0"
    and "researcher_score msg = kw_loop research_kw msg 0"
    and "analyst_score msg = kw_loop analyst_kw msg 0"
proof -
  from assms have a: "\<not> any_in ks_phrases msg" "\<not> any_in mo_phrases msg"
    "\<not> any_in draft_kw msg" "\<not> any_in draft_phrases msg" "\<not> py_in ''motion to'' msg"
    "\<not> py_in ''risk assess'' msg" "\<not> py_in ''what am i missing'' msg"
    "\<not> any_in strategist_kw msg"
    by (simp_all add: other_signals_def any_in_append any_in_Cons)
  from a(4) have b: "\<not> py_in ''draft a'' msg" "\<not> py_in ''draft the'' msg"
    "\<not> py_in ''draft my'' msg"
    by (simp_all add: draft_phrases_def any_in_Cons)
  show "drafter_score msg = 0"
    using a(3,5) b by (simp add: drafter_score_def kw_loop_no_hit)
  show "strategist_score msg = 0"
    using a(7,8) by (simp add: strategist_score_def kw_loop_no_hit)
  show "researcher_score msg = kw_loop research_kw msg 0"
    using a(1,2) by (simp add: researcher_score_def)
  show "analyst_score msg = kw_loop analyst_kw msg 0"
    using a(6,7) by (simp add: analyst_score_def)
qed

lemma max_key_four:
  fixes r a d s :: int
  defines "sc \<equiv> [(''researcher'', r), (''analyst'', a), (''drafter'', d), (''strategist'', s)]"
  shows "snd (py_max_key sc) = max r (max a (max d s))"
    and "fst (py_max_key sc) =
      (if r = max r (max a (max d s)) then ''researcher''
       else if a = max r (max a (max d s)) then ''analyst''
       else if d = max r (max a (max d s)) then ''drafter'' else ''strategist'')"
  unfolding sc_def by (auto simp: max_def)

lemma scores_shape:
  "\<exists>r a d s. scores message =
     [(''researcher'', r), (''analyst'', a), (''drafter'', d), (''strategist'', s)]"
  by (simp add: scores_def Let_def)

lemma scores_hello:
  "scores ''hello'' = [(''researcher'', 0), (''analyst'', 0), (''drafter'', 0), (''strategist'', 0)]"
  by code_simp

lemma scores_find_risk:
  "scores ''find risk'' = [(''researcher'', 3), (''analyst'', 3), (''drafter'', 0), (''strategist'', 0)]"
  by code_simp

lemma classify_hello: "classify_intent ''hello'' = ''strategist''"
  by (simp add: classify_intent_def scores_hello)

lemma classify_intent_range:
  "classify_intent q \<in> {''researcher'', ''analyst'', ''drafter'', ''strategist''}"
proof -
  obtain r a d s where sc: "scores q =
     [(''researcher'', r), (''analyst'', a), (''drafter'', d), (''strategist'', s)]"
    using scores_shape by blast
  show ?thesis
    unfolding classify_intent_def Let_def sc max_key_four by simp
qed

lemma classify_intent_nonempty: "classify_intent q \<noteq> []"
  using classify_intent_range [of q] by auto

text \<open>
  Lowercasing reaches the Kelvin sign: a text that spells \<open>risk\<close> with it scores for
  the analyst, and \<open>Kansas\<close> spelt with it is found in the jurisdiction table.
\<close>

lemma py_lower_kelvin_ansas: "py_lower (kelvin @ ''ansas'') = ''kansas''"
  by code_simp

lemma classify_ris_kelvin: "classify_intent (''ris'' @ kelvin) = ''analyst''"
  by code_simp

lemma jx_display_kelvin: "jx_display (kelvin @ ''ansas'') = ''Kansas''"
  by (simp add: jx_display_def jx_table_def py_lower_kelvin_ansas)

text \<open>
  Claim C6. When the lowercased text contains none of the classifier's keywords or
  phrases, every role's score is zero and \<open>classify_intent\<close> returns the
  strategist.
\<close>

theorem classify_intent_no_signal:
  assumes "\<not> any_in all_signals (py_lower message)"
  shows "scores message = [(''researcher'', 0), (''analyst'', 0), (''drafter'', 0), (''strategist'', 0)]
     \<and> classify_intent message = ''strategist''"
proof -
  let ?m = "py_lower message"
  from assms have q: "\<not> any_in other_signals ?m" and r: "\<not> any_in research_kw ?m"
    and a: "\<not> any_in analyst_kw ?m"
    by (simp_all add: all_signals_def any_in_append)
  have sc: "scores message =
      [(''researcher'', 0), (''analyst'', 0), (''drafter'', 0), (''strategist'', 0)]"
    using scores_quiet [OF q] kw_loop_no_hit [OF r] kw_loop_no_hit [OF a]
    by (simp add: scores_def Let_def)
  show ?thesis by (simp add: sc classify_intent_def)
qed

text \<open>Claim C6 at the text \<open>hello\<close>.\<close>

theorem classify_intent_no_signal_witness:
  "\<not> any_in all_signals (py_lower ''hello'') \<and> classify_intent ''hello'' = ''strategist''"
proof -
  have h: "\<not> any_in all_signals (py_lower ''hello'')"
    by code_simp
  show ?thesis using h classify_intent_no_signal [OF h] by simp
qed

text \<open>
  Claim C5, amended. When the maximum score is positive, \<open>classify_intent\<close> returns
  the first role, in the order researcher, analyst, drafter, strategist, whose score
  is the maximum. A text that matches exactly one generic researcher keyword, exactly
  one generic analyst keyword and no other keyword or phrase has the scores
  researcher 3, analyst 3, drafter 0, strategist 0 and is classified researcher.
\<close>

theorem classify_intent_tie_break:
  "(0 < Max (snd ` set (scores message)) \<longrightarrow>
      find (\<lambda>k. map_of (scores message) k = Some (Max (snd ` set (scores message))))
        [''researcher'', ''analyst'', ''drafter'', ''strategist''] = Some (classify_intent message))
   \<and> (length (filter (\<lambda>k. py_in k (py_lower message)) research_kw) = 1
        \<and> length (filter (\<lambda>k. py_in k (py_lower message)) analyst_kw) = 1
        \<and> \<not> any_in other_signals (py_lower message) \<longrightarrow>
      scores message = [(''researcher'', 3), (''analyst'', 3), (''drafter'', 0), (''strategist'', 0)]
      \<and> classify_intent message = ''researcher'')"
proof (intro conjI impI)
  obtain r a d s where sc: "scores message =
     [(''researcher'', r), (''analyst'', a), (''drafter'', d), (''strategist'', s)]"
    using scores_shape by blast
  have mx: "Max (snd ` set (scores message)) = max r (max a (max d s))"
    by (simp add: sc)
  assume "0 < Max (snd ` set (scores message))"
  then have pos: "0 < max r (max a (max d s))" by (simp only: mx)
  have ci: "classify_intent message = fst (py_max_key (scores message))"
    using pos max_key_four(1) [of r a d s] by (simp only: classify_intent_def Let_def sc) simp
  show "find (\<lambda>k. map_of (scores message) k = Some (Max (snd ` set (scores message))))
        [''researcher'', ''analyst'', ''drafter'', ''strategist''] = Some (classify_intent message)"
    unfolding ci mx unfolding sc max_key_four(2) by (auto simp: max_def)
next
  let ?m = "py_lower message"
  assume h: "length (filter (\<lambda>k. py_in k ?m) research_kw) = 1
        \<and> length (filter (\<lambda>k. py_in k ?m) analyst_kw) = 1
        \<and> \<not> any_in other_signals ?m"
  then have q: "\<not> any_in other_signals ?m" by simp
  have sc: "scores message =
      [(''researcher'', 3), (''analyst'', 3), (''drafter'', 0), (''strategist'', 0)]"
    using scores_quiet [OF q] h by (simp add: scores_def Let_def kw_loop_one_hit)
  show "scores message =
      [(''researcher'', 3), (''analyst'', 3), (''drafter'', 0), (''strategist'', 0)]"
    by (rule sc)
  show "classify_intent message = ''researcher''"
    by (simp add: sc classify_intent_def)
qed

text \<open>Claim C5, amended, at the text \<open>find risk\<close>.\<close>

theorem classify_intent_tie_break_witness:
  "0 < Max (snd ` set (scores ''find risk''))
   \<and> length (filter (\<lambda>k. py_in k (py_lower ''find risk'')) research_kw) = 1
   \<and> length (filter (\<lambda>k. py_in k (py_lower ''find risk'')) analyst_kw) = 1
   \<and> \<not> any_in other_signals (py_lower ''find risk'')
   \<and> find (\<lambda>k. map_of (scores ''find risk'') k = Some (Max (snd ` set (scores ''find risk''))))
        [''researcher'', ''analyst'', ''drafter'', ''strategist''] = Some (classify_intent ''find risk'')
   \<and> scores ''find risk'' = [(''researcher'', 3), (''analyst'', 3), (''drafter'', 0), (''strategist'', 0)]
   \<and> classify_intent ''find risk'' = ''researcher''"
proof -
  have h1: "0 < Max (snd ` set (scores ''find risk''))"
    by (simp add: scores_find_risk)
  have h2: "length (filter (\<lambda>k. py_in k (py_lower ''find risk'')) research_kw) = 1"
    by code_simp
  have h3: "length (filter (\<lambda>k. py_in k (py_lower ''find risk'')) analyst_kw) = 1"
    by code_simp
  have h4: "\<not> any_in other_signals (py_lower ''find risk'')"
    by code_simp
  show ?thesis
    using h1 h2 h3 h4 classify_intent_tie_break [of "''find risk''"] by blast
qed

text \<open>
  Claim C5 as stated fails when the tie is at score zero: on \<open>hello\<close> all four
  roles reach the maximum 0, the first of them is the researcher, and the result is
  the strategist.
\<close>

theorem classify_intent_all_zero_tie_counterexample:
  "2 \<le> length (filter (\<lambda>kv. snd kv = Max (snd ` set (scores ''hello''))) (scores ''hello''))
   \<and> find (\<lambda>k. map_of (scores ''hello'') k = Some (Max (snd ` set (scores ''hello''))))
        [''researcher'', ''analyst'', ''drafter'', ''strategist''] = Some ''researcher''
   \<and> classify_intent ''hello'' = ''strategist''"
  by (simp add: scores_hello classify_intent_def)

(* jurisdiction *)

section \<open>Properties of the task builder\<close>

lemma jx_display_cases:
  "jx_display jurisdiction =
     (if py_lower jurisdiction = ''kansas'' then ''Kansas''
      else if py_lower jurisdiction = ''missouri'' then ''Missouri''
      else if py_lower jurisdiction = ''federal'' then ''Federal''
      else if py_lower jurisdiction = ''multistate'' then ''Kansas & Missouri''
      else jurisdiction)"
  by (simp add: jx_display_def jx_table_def)

lemma py_lower_KANSAS: "py_lower ''KANSAS'' = ''kansas''"
  by code_simp

lemma full_crew_tasks_eq:
  "full_crew_tasks query jurisdiction matter_facts document_type =
     [create_research_task researcher query (jx_display jurisdiction),
      create_analysis_task analyst query (jx_display jurisdiction) matter_facts]
     @ (if document_type \<noteq> [] \<or> any_in drafter_triggers (py_lower query)
        then [create_drafting_task drafter query (jx_display jurisdiction) document_type matter_facts]
        else [])
     @ [create_strategy_task strategist query (jx_display jurisdiction) matter_facts]"
  by (simp add: full_crew_tasks_def Let_def)

lemma task_agents [simp]:
  "agent (create_research_task ag q jx) = ag"
  "agent (create_analysis_task ag q jx mf) = ag"
  "agent (create_drafting_task ag q jx dt mf) = ag"
  "agent (create_strategy_task ag q jx mf) = ag"
  by (simp_all add: create_research_task_def create_analysis_task_def
      create_drafting_task_def create_strategy_task_def Let_def)

lemma any_in_drafter_triggers:
  "any_in drafter_triggers m =
     (py_in ''draft'' m \<or> py_in ''write'' m \<or> py_in ''prepare'' m \<or> py_in ''motion'' m
      \<or> py_in ''complaint'' m \<or> py_in ''letter'' m)"
  by (simp add: drafter_triggers_def any_in_def)

lemma agents_lookup:
  "map_of create_agents a =
     (if a = ''researcher'' then Some researcher
      else if a = ''analyst'' then Some analyst
      else if a = ''drafter'' then Some drafter
      else if a = ''strategist'' then Some strategist
      else None)"
  by (simp add: create_agents_def)

lemma single_agent_plan_kind:
  "single_agent_plan query jurisdiction agent_type matter_facts document_type =
     (let a = (if agent_type = [] then classify_intent query else agent_type) in
      (a, case map_of create_agents a of
            None \<Rightarrow> Inl (KeyError a)
          | Some ag \<Rightarrow>
              Inr (ag, task_of_kind (task_kind_of a) ag query (jx_display jurisdiction)
                         matter_facts document_type)))"
  by (simp add: single_agent_plan_def Let_def task_of_kind_def task_kind_of_def
      split: option.splits)

lemma no_trigger_hello: "\<not> any_in drafter_triggers (py_lower ''hello'')"
  by code_simp

lemma tasks_hello:
  "full_crew_tasks ''hello'' j [] [] =
     [create_research_task researcher ''hello'' (jx_display j),
      create_analysis_task analyst ''hello'' (jx_display j) [],
      create_strategy_task strategist ''hello'' (jx_display j) []]"
  using no_trigger_hello by (simp add: full_crew_tasks_eq)

lemma tasks_doc_type:
  "full_crew_tasks ''hello'' j [] ''motion for summary judgment'' =
     [create_research_task researcher ''hello'' (jx_display j),
      create_analysis_task analyst ''hello'' (jx_display j) [],
      create_drafting_task drafter ''hello'' (jx_display j) ''motion for summary judgment'' [],
      create_strategy_task strategist ''hello'' (jx_display j) []]"
  by (simp add: full_crew_tasks_eq)

lemma py_lower_Texas: "py_lower ''Texas'' = ''texas''"
  by code_simp

lemma py_lower_multistate: "py_lower ''MultiState'' = ''multistate''"
  by code_simp

text \<open>
  Claim C7, amended. The table is looked up with the lowercased jurisdiction
  (\<open>str.lower\<close>): a jurisdiction whose lowercase is kansas, missouri, federal or
  multistate is rendered as Kansas, Missouri, Federal or Kansas & Missouri, whatever
  its case; any other is rendered verbatim, case preserved. The rendered value is the
  jurisdiction given to every template: to each task of \<open>run_full_crew\<close> and to the
  task of \<open>run_single_agent\<close>, whatever the role; each template writes it after
  \<open>under\<close> in the first line of the task text.
\<close>

theorem jx_display_rendered:
  "jx_display jurisdiction =
     (if py_lower jurisdiction = ''kansas'' then ''Kansas''
      else if py_lower jurisdiction = ''missouri'' then ''Missouri''
      else if py_lower jurisdiction = ''federal'' then ''Federal''
      else if py_lower jurisdiction = ''multistate'' then ''Kansas & Missouri''
      else jurisdiction)
   \<and> full_crew_tasks query jurisdiction matter_facts document_type =
       [create_research_task researcher query (jx_display jurisdiction),
        create_analysis_task analyst query (jx_display jurisdiction) matter_facts]
       @ (if document_type \<noteq> [] \<or> any_in drafter_triggers (py_lower query)
          then [create_drafting_task drafter query (jx_display jurisdiction) document_type
                  matter_facts]
          else [])
       @ [create_strategy_task strategist query (jx_display jurisdiction) matter_facts]
   \<and> single_agent_plan query jurisdiction agent_type matter_facts document_type =
       (let r = (if agent_type = [] then classify_intent query else agent_type) in
        (r, case map_of create_agents r of
              None \<Rightarrow> Inl (KeyError r)
            | Some ag \<Rightarrow>
                Inr (ag, task_of_kind (task_kind_of r) ag query (jx_display jurisdiction)
                           matter_facts document_type)))
   \<and> prefix (''Research the following legal question under '' @ jx_display jurisdiction
               @ '' law:'')
        (description (create_research_task ag query (jx_display jurisdiction)))
   \<and> prefix (''Perform a comprehensive risk analysis for the following matter under ''
               @ jx_display jurisdiction @ '' law:'')
        (description (create_analysis_task ag query (jx_display jurisdiction) matter_facts))
   \<and> prefix (''Draft a '' @ str_or document_type ''legal document'' @ '' under ''
               @ jx_display jurisdiction @ '' law:'')
        (description (create_drafting_task ag query (jx_display jurisdiction) document_type
           matter_facts))
   \<and> prefix (''Develop a litigation strategy for the following under ''
               @ jx_display jurisdiction @ '' law:'')
        (description (create_strategy_task ag query (jx_display jurisdiction) matter_facts))"
  apply (intro conjI)
  subgoal by (rule jx_display_cases)
  subgoal by (rule full_crew_tasks_eq)
  subgoal by (rule single_agent_plan_kind)
  subgoal by (simp add: create_research_task_def)
  subgoal by (simp add: create_analysis_task_def)
  subgoal by (simp add: create_drafting_task_def Let_def)
  subgoal by (simp add: create_strategy_task_def)
  done

text \<open>
  Claim C7, amended, at a jurisdiction outside the table, at one inside it in mixed
  case, and at \<open>Kansas\<close> spelt with the Kelvin sign.
\<close>

theorem jx_display_rendered_witness:
  "jx_display ''Texas'' = ''Texas''
   \<and> jx_display ''MultiState'' = ''Kansas & Missouri''
   \<and> jx_display (kelvin @ ''ansas'') = ''Kansas''
   \<and> full_crew_tasks ''hello'' ''Texas'' [] [] =
       [create_research_task researcher ''hello'' ''Texas'',
        create_analysis_task analyst ''hello'' ''Texas'' [],
        create_strategy_task strategist ''hello'' ''Texas'' []]
   \<and> prefix ''Perform a comprehensive risk analysis for the following matter under Texas law:''
        (description (create_analysis_task analyst ''hello'' ''Texas'' []))"
proof -
  have a: "jx_display ''Texas'' = ''Texas''"
    using jx_display_rendered [of "''Texas''" "''hello''" "[]" "[]" "[]" analyst]
    by (simp add: py_lower_Texas)
  have b: "jx_display ''MultiState'' = ''Kansas & Missouri''"
    using jx_display_rendered [of "''MultiState''" "''hello''" "[]" "[]" "[]" analyst]
    by (simp add: py_lower_multistate)
  have c: "jx_display (kelvin @ ''ansas'') = ''Kansas''"
    using jx_display_rendered [of "kelvin @ ''ansas''" "''hello''" "[]" "[]" "[]" analyst]
    by (simp add: py_lower_kelvin_ansas)
  have d: "full_crew_tasks ''hello'' ''Texas'' [] [] =
       [create_research_task researcher ''hello'' ''Texas'',
        create_analysis_task analyst ''hello'' ''Texas'' [],
        create_strategy_task strategist ''hello'' ''Texas'' []]"
    using jx_display_rendered [of "''Texas''" "''hello''" "[]" "[]" "[]" analyst]
      no_trigger_hello a
    by simp
  have e: "prefix ''Perform a comprehensive risk analysis for the following matter under Texas law:''
        (description (create_analysis_task analyst ''hello'' ''Texas'' []))"
    using jx_display_rendered [of "''Texas''" "''hello''" "[]" "[]" "[]" analyst] a
    by simp
  from a b c d e show ?thesis by (intro conjI)
qed

text \<open>
  Claim C7 as stated fails on a jurisdiction written in another case: \<open>KANSAS\<close> is
  not a key of the table, and is rendered \<open>Kansas\<close>, not verbatim.
\<close>

theorem jx_display_upper_counterexample:
  "''KANSAS'' \<notin> fst ` set jx_table \<and> jx_display ''KANSAS'' = ''Kansas'' \<and> jx_display ''KANSAS'' \<noteq> ''KANSAS''"
  by (simp add: jx_display_def jx_table_def py_lower_KANSAS)

lemma run_full_crew_cases:
  "run_full_crew kickoff ev w query jurisdiction matter_facts document_type =
     (case setup_failure ev of
        Some e \<Rightarrow> (full_failure e jurisdiction, w)
      | None \<Rightarrow>
          (case kickoff w [researcher, analyst, drafter, strategist]
                  (full_crew_tasks query jurisdiction matter_facts document_type) of
             (Inl e, w') \<Rightarrow> (full_failure e jurisdiction, w')
           | (Inr result, w') \<Rightarrow>
               ([(''success'', PyBool True),
                 (''agent_type'', PyStr ''full_crew''),
                 (''content'', PyStr (raw result)),
                 (''jurisdiction'', PyStr jurisdiction),
                 (''model'', PyStr (config_model ev)),
                 (''agents_used'', PyStrList [''researcher'', ''analyst'', ''drafter'', ''strategist'']),
                 (''tasks_completed'',
                    PyInt (int (length (full_crew_tasks query jurisdiction matter_facts document_type)))),
                 (''token_usage'', usage_value result)], w')))"
  by (simp add: run_full_crew_def create_agents_def Let_def
      split: option.splits prod.splits sum.splits)

lemma tasks_doc_type_logged:
  "execute_tasks always_succeeds [t1, t2, t3, t4] [] (0, []) =
     (Inr [\<lparr>text_out = ''part'', total_tokens = 10\<rparr>, \<lparr>text_out = ''part'', total_tokens = 10\<rparr>,
           \<lparr>text_out = ''part'', total_tokens = 10\<rparr>, \<lparr>text_out = ''part'', total_tokens = 10\<rparr>],
      (4, [t1, t2, t3, t4]))"
  by (simp add: always_succeeds_def)

text \<open>
  Claim C3, amended. \<open>run_full_crew\<close> builds the research task, the analysis task,
  then the drafting task exactly when the document type is not empty or the
  lowercased query contains one of draft, write, prepare, motion, complaint, letter,
  and last the strategy task; with the drafter the roles are researcher, analyst,
  drafter, strategist. When the set-up succeeds, this list is what the executor is
  called with, once; a successful result reports 4 tasks completed with the drafter
  and 3 without, and a failed result has no \<open>tasks_completed\<close>.
\<close>

theorem full_crew_task_sequence:
  "full_crew_tasks query jurisdiction matter_facts document_type =
     [create_research_task researcher query (jx_display jurisdiction),
      create_analysis_task analyst query (jx_display jurisdiction) matter_facts]
     @ (if document_type \<noteq> []
           \<or> py_in ''draft'' (py_lower query) \<or> py_in ''write'' (py_lower query)
           \<or> py_in ''prepare'' (py_lower query) \<or> py_in ''motion'' (py_lower query)
           \<or> py_in ''complaint'' (py_lower query) \<or> py_in ''letter'' (py_lower query)
        then [create_drafting_task drafter query (jx_display jurisdiction) document_type matter_facts]
        else [])
     @ [create_strategy_task strategist query (jx_display jurisdiction) matter_facts]
   \<and> map agent (full_crew_tasks query jurisdiction matter_facts document_type) =
     [researcher, analyst]
     @ (if document_type \<noteq> []
           \<or> py_in ''draft'' (py_lower query) \<or> py_in ''write'' (py_lower query)
           \<or> py_in ''prepare'' (py_lower query) \<or> py_in ''motion'' (py_lower query)
           \<or> py_in ''complaint'' (py_lower query) \<or> py_in ''letter'' (py_lower query)
        then [drafter] else [])
     @ [strategist]
   \<and> (drafter \<in> set (map agent (full_crew_tasks query jurisdiction matter_facts document_type)))
       = (document_type \<noteq> []
           \<or> py_in ''draft'' (py_lower query) \<or> py_in ''write'' (py_lower query)
           \<or> py_in ''prepare'' (py_lower query) \<or> py_in ''motion'' (py_lower query)
           \<or> py_in ''complaint'' (py_lower query) \<or> py_in ''letter'' (py_lower query))
   \<and> agent (last (full_crew_tasks query jurisdiction matter_facts document_type)) = strategist
   \<and> (drafter \<in> set (map agent (full_crew_tasks query jurisdiction matter_facts document_type)) \<longrightarrow>
        map agent (full_crew_tasks query jurisdiction matter_facts document_type) =
          [researcher, analyst, drafter, strategist])
   \<and> (setup_failure ev = None \<longrightarrow>
        run_full_crew kickoff ev w query jurisdiction matter_facts document_type =
          (case kickoff w [researcher, analyst, drafter, strategist]
                  (full_crew_tasks query jurisdiction matter_facts document_type) of
             (Inl e, w') \<Rightarrow>
               ([(''success'', PyBool False),
                 (''agent_type'', PyStr ''full_crew''),
                 (''error'', PyExnStr e),
                 (''content'', PyStr []),
                 (''jurisdiction'', PyStr jurisdiction)], w')
           | (Inr result, w') \<Rightarrow>
               ([(''success'', PyBool True),
                 (''agent_type'', PyStr ''full_crew''),
                 (''content'', PyStr (raw result)),
                 (''jurisdiction'', PyStr jurisdiction),
                 (''model'', PyStr (config_model ev)),
                 (''agents_used'', PyStrList [''researcher'', ''analyst'', ''drafter'', ''strategist'']),
                 (''tasks_completed'',
                    PyInt (if drafter \<in> set (map agent
                              (full_crew_tasks query jurisdiction matter_facts document_type))
                           then 4 else 3)),
                 (''token_usage'', usage_value result)], w')))
   \<and> (setup_failure ev \<noteq> None \<longrightarrow>
        map_of (fst (run_full_crew kickoff ev w query jurisdiction matter_facts document_type))
          ''tasks_completed'' = None
        \<and> snd (run_full_crew kickoff ev w query jurisdiction matter_facts document_type) = w)"
proof -
  let ?ts = "full_crew_tasks query jurisdiction matter_facts document_type"
  have ne: "drafter \<noteq> researcher" "drafter \<noteq> analyst" "drafter \<noteq> strategist"
    by (simp_all add: drafter_def researcher_def analyst_def strategist_def)
  have len: "int (length ?ts) = (if drafter \<in> set (map agent ?ts) then 4 else 3)"
    using ne by (auto simp: full_crew_tasks_eq)
  have c: "drafter \<in> set (map agent ?ts) \<Longrightarrow>
      map agent ?ts = [researcher, analyst, drafter, strategist]"
    using ne by (auto simp: full_crew_tasks_eq split: if_splits)
  have d: "(drafter \<in> set (map agent ?ts))
       = (document_type \<noteq> []
           \<or> py_in ''draft'' (py_lower query) \<or> py_in ''write'' (py_lower query)
           \<or> py_in ''prepare'' (py_lower query) \<or> py_in ''motion'' (py_lower query)
           \<or> py_in ''complaint'' (py_lower query) \<or> py_in ''letter'' (py_lower query))"
    using ne by (auto simp: full_crew_tasks_eq any_in_drafter_triggers)
  have run: "setup_failure ev = None \<Longrightarrow>
      run_full_crew kickoff ev w query jurisdiction matter_facts document_type =
          (case kickoff w [researcher, analyst, drafter, strategist] ?ts of
             (Inl e, w') \<Rightarrow>
               ([(''success'', PyBool False),
                 (''agent_type'', PyStr ''full_crew''),
                 (''error'', PyExnStr e),
                 (''content'', PyStr []),
                 (''jurisdiction'', PyStr jurisdiction)], w')
           | (Inr result, w') \<Rightarrow>
               ([(''success'', PyBool True),
                 (''agent_type'', PyStr ''full_crew''),
                 (''content'', PyStr (raw result)),
                 (''jurisdiction'', PyStr jurisdiction),
                 (''model'', PyStr (config_model ev)),
                 (''agents_used'', PyStrList [''researcher'', ''analyst'', ''drafter'', ''strategist'']),
                 (''tasks_completed'',
                    PyInt (if drafter \<in> set (map agent ?ts) then 4 else 3)),
                 (''token_usage'', usage_value result)], w'))"
    by (simp add: run_full_crew_cases full_failure_def len split: prod.splits sum.splits)
  have nosetup: "setup_failure ev \<noteq> None \<Longrightarrow>
        map_of (fst (run_full_crew kickoff ev w query jurisdiction matter_facts document_type))
          ''tasks_completed'' = None
        \<and> snd (run_full_crew kickoff ev w query jurisdiction matter_facts document_type) = w"
    by (auto simp: run_full_crew_cases full_failure_def)
  show ?thesis
    apply (intro conjI impI)
    subgoal by (simp add: full_crew_tasks_eq any_in_drafter_triggers)
    subgoal by (simp add: full_crew_tasks_eq any_in_drafter_triggers)
    subgoal by (rule d)
    subgoal by (simp add: full_crew_tasks_eq)
    subgoal by (rule c)
    subgoal by (rule run)
    subgoal using nosetup by blast
    subgoal using nosetup by blast
    done
qed

text \<open>
  Claim C3, amended, at the document type \<open>motion for summary judgment\<close>, with the
  sequential executor over an engine that never fails: the four tasks are logged in
  order and the result reports 4.
\<close>

theorem full_crew_task_sequence_witness:
  "drafter \<in> set (map agent (full_crew_tasks ''hello'' ''kansas'' [] ''motion for summary judgment''))
   \<and> setup_failure plain_env = None
   \<and> map agent (full_crew_tasks ''hello'' ''kansas'' [] ''motion for summary judgment'') =
        [researcher, analyst, drafter, strategist]
   \<and> run_full_crew (crew_kickoff always_succeeds) plain_env (0, []) ''hello'' ''kansas'' []
        ''motion for summary judgment'' =
       ([(''success'', PyBool True),
         (''agent_type'', PyStr ''full_crew''),
         (''content'', PyStr ''part''),
         (''jurisdiction'', PyStr ''kansas''),
         (''model'', PyStr ''gpt-5-mini''),
         (''agents_used'', PyStrList [''researcher'', ''analyst'', ''drafter'', ''strategist'']),
         (''tasks_completed'', PyInt 4),
         (''token_usage'', PyUsage 40)],
        (4, [create_research_task researcher ''hello'' (jx_display ''kansas''),
             create_analysis_task analyst ''hello'' (jx_display ''kansas'') [],
             create_drafting_task drafter ''hello'' (jx_display ''kansas'')
               ''motion for summary judgment'' [],
             create_strategy_task strategist ''hello'' (jx_display ''kansas'') []]))"
proof -
  let ?ts = "full_crew_tasks ''hello'' ''kansas'' [] ''motion for summary judgment''"
  have h1: "drafter \<in> set (map agent ?ts)"
    by (simp add: tasks_doc_type)
  have h2: "setup_failure plain_env = None"
    by (simp add: plain_env_def)
  note t = full_crew_task_sequence [of "''hello''" "''kansas''" "[]"
        "''motion for summary judgment''" plain_env "crew_kickoff always_succeeds" "(0, [])"]
  have a: "map agent ?ts = [researcher, analyst, drafter, strategist]"
    using t h1 by blast
  have k: "crew_kickoff always_succeeds (0, []) [researcher, analyst, drafter, strategist] ?ts =
      (Inr \<lparr>raw = ''part'', token_usage = Some 40\<rparr>,
       (4, [create_research_task researcher ''hello'' (jx_display ''kansas''),
             create_analysis_task analyst ''hello'' (jx_display ''kansas'') [],
             create_drafting_task drafter ''hello'' (jx_display ''kansas'')
               ''motion for summary judgment'' [],
             create_strategy_task strategist ''hello'' (jx_display ''kansas'') []]))"
    unfolding crew_kickoff_def tasks_doc_type tasks_doc_type_logged by simp
  have r: "run_full_crew (crew_kickoff always_succeeds) plain_env (0, []) ''hello'' ''kansas'' []
        ''motion for summary judgment'' =
          (case crew_kickoff always_succeeds (0, []) [researcher, analyst, drafter, strategist] ?ts of
             (Inl e, w') \<Rightarrow>
               ([(''success'', PyBool False),
                 (''agent_type'', PyStr ''full_crew''),
                 (''error'', PyExnStr e),
                 (''content'', PyStr []),
                 (''jurisdiction'', PyStr ''kansas'')], w')
           | (Inr result, w') \<Rightarrow>
               ([(''success'', PyBool True),
                 (''agent_type'', PyStr ''full_crew''),
                 (''content'', PyStr (raw result)),
                 (''jurisdiction'', PyStr ''kansas''),
                 (''model'', PyStr (config_model plain_env)),
                 (''agents_used'', PyStrList [''researcher'', ''analyst'', ''drafter'', ''strategist'']),
                 (''tasks_completed'',
                    PyInt (if drafter \<in> set (map agent ?ts) then 4 else 3)),
                 (''token_usage'', usage_value result)], w'))"
    using t h2 by blast
  show ?thesis
    apply (intro conjI)
    subgoal by (rule h1)
    subgoal by (rule h2)
    subgoal by (rule a)
    subgoal unfolding r k using h1 by (simp add: plain_env_def usage_value_def)
    done
qed

text \<open>
  Claim C3 as stated fails when the executor raises: the drafter is present and the
  result has no \<open>tasks_completed\<close>.
\<close>

theorem full_crew_task_sequence_counterexample:
  "drafter \<in> set (map agent (full_crew_tasks ''hello'' ''kansas'' [] ''motion for summary judgment''))
   \<and> map_of (fst (run_full_crew raising_kickoff plain_env () ''hello'' ''kansas'' []
         ''motion for summary judgment'')) ''tasks_completed'' = None"
  by (simp add: tasks_doc_type run_full_crew_cases plain_env_def raising_kickoff_def
      full_failure_def)

text \<open>
  Claim C1, amended. A successful result of \<open>run_full_crew\<close> lists all four agents
  of the crew under \<open>agents_used\<close>, whether or not the drafter ran. When the document
  type is empty and the lowercased query contains no drafter trigger, the tasks run
  are those of the researcher, the analyst and the strategist, and a successful
  result reports 3 tasks completed.
\<close>

theorem full_crew_roster_and_count:
  "map_of (fst (run_full_crew kickoff ev w query jurisdiction matter_facts document_type))
      ''success'' = Some (PyBool True) \<longrightarrow>
     map_of (fst (run_full_crew kickoff ev w query jurisdiction matter_facts document_type))
       ''agents_used'' = Some (PyStrList [''researcher'', ''analyst'', ''drafter'', ''strategist''])
     \<and> (document_type = [] \<and> \<not> any_in drafter_triggers (py_lower query) \<longrightarrow>
          map agent (full_crew_tasks query jurisdiction matter_facts document_type) =
            [researcher, analyst, strategist]
          \<and> map_of (fst (run_full_crew kickoff ev w query jurisdiction matter_facts document_type))
              ''tasks_completed'' = Some (PyInt 3))"
  by (auto simp: run_full_crew_cases full_failure_def full_crew_tasks_eq
      split: option.splits prod.splits sum.splits)

text \<open>Claim C1, amended, at the query \<open>hello\<close> with no document type.\<close>

theorem full_crew_roster_and_count_witness:
  "map_of (fst (run_full_crew succeeding_kickoff plain_env () ''hello'' ''kansas'' [] []))
      ''success'' = Some (PyBool True)
   \<and> [] = ([] :: string) \<and> \<not> any_in drafter_triggers (py_lower ''hello'')
   \<and> map_of (fst (run_full_crew succeeding_kickoff plain_env () ''hello'' ''kansas'' [] []))
       ''agents_used'' = Some (PyStrList [''researcher'', ''analyst'', ''drafter'', ''strategist''])
   \<and> map agent (full_crew_tasks ''hello'' ''kansas'' [] []) = [researcher, analyst, strategist]
   \<and> map_of (fst (run_full_crew succeeding_kickoff plain_env () ''hello'' ''kansas'' [] []))
       ''tasks_completed'' = Some (PyInt 3)"
proof -
  have h1: "map_of (fst (run_full_crew succeeding_kickoff plain_env () ''hello'' ''kansas'' [] []))
      ''success'' = Some (PyBool True)"
    by (simp add: run_full_crew_cases plain_env_def succeeding_kickoff_def)
  show ?thesis
    using h1 no_trigger_hello
      full_crew_roster_and_count [of succeeding_kickoff plain_env "()" "''hello''" "''kansas''" "[]" "[]"]
    by blast
qed

text \<open>
  Claim C1 as stated fails at the query \<open>hello\<close> with no document type: the drafter
  does not run, and \<open>agents_used\<close> still names it.
\<close>

theorem full_crew_roster_counterexample:
  "\<not> any_in drafter_triggers (py_lower ''hello'')
   \<and> map agent (full_crew_tasks ''hello'' ''kansas'' [] []) = [researcher, analyst, strategist]
   \<and> map_of (fst (run_full_crew succeeding_kickoff plain_env () ''hello'' ''kansas'' [] []))
        ''agents_used'' = Some (PyStrList [''researcher'', ''analyst'', ''drafter'', ''strategist''])
   \<and> map_of (fst (run_full_crew succeeding_kickoff plain_env () ''hello'' ''kansas'' [] []))
        ''agents_used'' \<noteq> Some (PyStrList [''researcher'', ''analyst'', ''strategist''])"
  using no_trigger_hello
  by (simp add: tasks_hello run_full_crew_cases plain_env_def succeeding_kickoff_def)

text \<open>
  Claim C8. Two requests that differ only in the jurisdiction resolve to the same
  role (the classified one when no role is forced), the same agent and the same task
  template in \<open>run_single_agent\<close>, or raise the same exception; in
  \<open>run_full_crew\<close> they build as many tasks, for the same agents in the same order.
  The jurisdiction enters only as the rendered text given to the template.
\<close>

theorem jurisdiction_only_text:
  "fst (single_agent_plan q j1 agent_type mf dt) = fst (single_agent_plan q j2 agent_type mf dt)
   \<and> fst (single_agent_plan q j1 [] mf dt) = classify_intent q
   \<and> ((\<exists>e. snd (single_agent_plan q j1 agent_type mf dt) = Inl e
           \<and> snd (single_agent_plan q j2 agent_type mf dt) = Inl e)
       \<or> (\<exists>ag k. snd (single_agent_plan q j1 agent_type mf dt) =
                   Inr (ag, task_of_kind k ag q (jx_display j1) mf dt)
               \<and> snd (single_agent_plan q j2 agent_type mf dt) =
                   Inr (ag, task_of_kind k ag q (jx_display j2) mf dt)
               \<and> k = task_kind_of (fst (single_agent_plan q j1 agent_type mf dt))))
   \<and> length (full_crew_tasks q j1 mf dt) = length (full_crew_tasks q j2 mf dt)
   \<and> map agent (full_crew_tasks q j1 mf dt) = map agent (full_crew_tasks q j2 mf dt)"
  by (auto simp: single_agent_plan_kind Let_def full_crew_tasks_eq split: option.splits)

text \<open>Claim C8 at the jurisdictions \<open>kansas\<close> and \<open>Texas\<close>.\<close>

theorem jurisdiction_only_text_witness:
  "fst (single_agent_plan ''hello'' ''kansas'' [] [] []) = ''strategist''
   \<and> fst (single_agent_plan ''hello'' ''Texas'' [] [] []) = ''strategist''
   \<and> snd (single_agent_plan ''hello'' ''kansas'' [] [] []) =
       Inr (strategist, task_of_kind Strategy strategist ''hello'' (jx_display ''kansas'') [] [])
   \<and> snd (single_agent_plan ''hello'' ''Texas'' [] [] []) =
       Inr (strategist, task_of_kind Strategy strategist ''hello'' (jx_display ''Texas'') [] [])
   \<and> length (full_crew_tasks ''hello'' ''kansas'' [] []) = 3
   \<and> length (full_crew_tasks ''hello'' ''Texas'' [] []) = 3"
  using jurisdiction_only_text [of "''hello''" "''kansas''" "[]" "''Texas''" "[]" "[]"]
  by (simp add: single_agent_plan_kind classify_hello agents_lookup task_kind_of_def tasks_hello)

section \<open>Properties of the results\<close>

lemma run_single_agent_forms:
  "(\<exists>a e. fst (run_single_agent kickoff ev w q j agent_type mf dt) = single_failure a e j)
   \<or> (\<exists>a result. fst (run_single_agent kickoff ev w q j agent_type mf dt) =
         [(''success'', PyBool True), (''agent_type'', PyStr a), (''content'', PyStr (raw result)),
          (''jurisdiction'', PyStr j), (''model'', PyStr (config_model ev)),
          (''token_usage'', usage_value result)])"
  by (auto simp: run_single_agent_def split: option.splits prod.splits sum.splits)

lemma run_full_crew_forms:
  "(\<exists>e. fst (run_full_crew kickoff ev w q j mf dt) = full_failure e j)
   \<or> (\<exists>result n. fst (run_full_crew kickoff ev w q j mf dt) =
         [(''success'', PyBool True), (''agent_type'', PyStr ''full_crew''),
          (''content'', PyStr (raw result)), (''jurisdiction'', PyStr j),
          (''model'', PyStr (config_model ev)),
          (''agents_used'', PyStrList [''researcher'', ''analyst'', ''drafter'', ''strategist'']),
          (''tasks_completed'', PyInt n),
          (''token_usage'', usage_value result)])"
  by (auto simp: run_full_crew_cases split: option.splits prod.splits sum.splits)

lemma run_single_agent_agent_type:
  "setup_failure ev = None \<Longrightarrow>
   map_of (fst (run_single_agent kickoff ev w q j agent_type mf dt)) ''agent_type'' =
     Some (PyStr (fst (single_agent_plan q j agent_type mf dt)))"
  using classify_intent_nonempty [of q]
  by (auto simp: run_single_agent_def single_agent_plan_kind Let_def single_failure_def str_or_def
      split: option.splits prod.splits sum.splits)

lemma run_single_hello_ok:
  "fst (run_single_agent succeeding_kickoff plain_env () ''hello'' ''kansas'' [] [] []) =
     [(''success'', PyBool True), (''agent_type'', PyStr ''strategist''),
      (''content'', PyStr ''memo''), (''jurisdiction'', PyStr ''kansas''),
      (''model'', PyStr ''gpt-5-mini''), (''token_usage'', PyUsage 42)]"
  by (simp add: run_single_agent_def single_agent_plan_kind classify_hello agents_lookup
      plain_env_def succeeding_kickoff_def usage_value_def Let_def)

lemma run_single_hello_raises:
  "fst (run_single_agent raising_kickoff plain_env () ''hello'' ''kansas'' [] [] []) =
     [(''success'', PyBool False), (''agent_type'', PyStr ''strategist''),
      (''error'', PyExnStr (Failure ''timeout'')), (''content'', PyStr []),
      (''jurisdiction'', PyStr ''kansas'')]"
  by (simp add: run_single_agent_def single_agent_plan_kind classify_hello agents_lookup
      plain_env_def raising_kickoff_def single_failure_def str_or_def Let_def)

lemma run_full_hello_ok:
  "fst (run_full_crew succeeding_kickoff plain_env () ''hello'' ''kansas'' [] []) =
     [(''success'', PyBool True), (''agent_type'', PyStr ''full_crew''),
      (''content'', PyStr ''memo''), (''jurisdiction'', PyStr ''kansas''),
      (''model'', PyStr ''gpt-5-mini''),
      (''agents_used'', PyStrList [''researcher'', ''analyst'', ''drafter'', ''strategist'']),
      (''tasks_completed'', PyInt 3), (''token_usage'', PyUsage 42)]"
  by (simp add: run_full_crew_cases tasks_hello plain_env_def succeeding_kickoff_def
      usage_value_def)

lemma run_full_hello_raises:
  "fst (run_full_crew raising_kickoff plain_env () ''hello'' ''kansas'' [] []) =
     [(''success'', PyBool False), (''agent_type'', PyStr ''full_crew''),
      (''error'', PyExnStr (Failure ''timeout'')), (''content'', PyStr []),
      (''jurisdiction'', PyStr ''kansas'')]"
  by (simp add: run_full_crew_cases plain_env_def raising_kickoff_def full_failure_def)

text \<open>
  Claim C2, amended. Every result holds \<open>success\<close>, \<open>agent_type\<close>, \<open>content\<close> and
  \<open>jurisdiction\<close>; the jurisdiction is the request's, the \<open>agent_type\<close> of
  \<open>run_full_crew\<close> is \<open>full_crew\<close>, and that of \<open>run_single_agent\<close> is the resolved
  role whenever the set-up has not failed. Beyond these a successful result holds
  \<open>model\<close> and \<open>token_usage\<close> (and, for \<open>run_full_crew\<close>, \<open>agents_used\<close> and
  \<open>tasks_completed\<close>) and no \<open>error\<close>; a failed result holds \<open>error\<close> and an empty
  \<open>content\<close>, and none of the others.
\<close>

theorem result_shapes:
  "map_of (fst (run_single_agent kickoff ev w q j agent_type mf dt)) ''jurisdiction'' = Some (PyStr j)
   \<and> (\<exists>a. map_of (fst (run_single_agent kickoff ev w q j agent_type mf dt)) ''agent_type''
           = Some (PyStr a))
   \<and> (setup_failure ev = None \<longrightarrow>
        map_of (fst (run_single_agent kickoff ev w q j agent_type mf dt)) ''agent_type''
          = Some (PyStr (fst (single_agent_plan q j agent_type mf dt))))
   \<and> ((map fst (fst (run_single_agent kickoff ev w q j agent_type mf dt)) =
          [''success'', ''agent_type'', ''content'', ''jurisdiction'', ''model'', ''token_usage'']
        \<and> map_of (fst (run_single_agent kickoff ev w q j agent_type mf dt)) ''success''
            = Some (PyBool True))
       \<or> (map fst (fst (run_single_agent kickoff ev w q j agent_type mf dt)) =
          [''success'', ''agent_type'', ''error'', ''content'', ''jurisdiction'']
        \<and> map_of (fst (run_single_agent kickoff ev w q j agent_type mf dt)) ''success''
            = Some (PyBool False)
        \<and> map_of (fst (run_single_agent kickoff ev w q j agent_type mf dt)) ''content''
            = Some (PyStr [])))
   \<and> map_of (fst (run_full_crew kickoff ev w q j mf dt)) ''jurisdiction'' = Some (PyStr j)
   \<and> map_of (fst (run_full_crew kickoff ev w q j mf dt)) ''agent_type'' = Some (PyStr ''full_crew'')
   \<and> ((map fst (fst (run_full_crew kickoff ev w q j mf dt)) =
          [''success'', ''agent_type'', ''content'', ''jurisdiction'', ''model'', ''agents_used'',
           ''tasks_completed'', ''token_usage'']
        \<and> map_of (fst (run_full_crew kickoff ev w q j mf dt)) ''success'' = Some (PyBool True))
       \<or> (map fst (fst (run_full_crew kickoff ev w q j mf dt)) =
          [''success'', ''agent_type'', ''error'', ''content'', ''jurisdiction'']
        \<and> map_of (fst (run_full_crew kickoff ev w q j mf dt)) ''success'' = Some (PyBool False)
        \<and> map_of (fst (run_full_crew kickoff ev w q j mf dt)) ''content'' = Some (PyStr [])))"
proof -
  have s: "map_of rs ''jurisdiction'' = Some (PyStr j)
   \<and> (\<exists>a. map_of rs ''agent_type'' = Some (PyStr a))
   \<and> ((map fst rs =
          [''success'', ''agent_type'', ''content'', ''jurisdiction'', ''model'', ''token_usage'']
        \<and> map_of rs ''success'' = Some (PyBool True))
       \<or> (map fst rs = [''success'', ''agent_type'', ''error'', ''content'', ''jurisdiction'']
        \<and> map_of rs ''success'' = Some (PyBool False)
        \<and> map_of rs ''content'' = Some (PyStr [])))
   \<and> map_of rf ''jurisdiction'' = Some (PyStr j)
   \<and> map_of rf ''agent_type'' = Some (PyStr ''full_crew'')
   \<and> ((map fst rf =
          [''success'', ''agent_type'', ''content'', ''jurisdiction'', ''model'', ''agents_used'',
           ''tasks_completed'', ''token_usage'']
        \<and> map_of rf ''success'' = Some (PyBool True))
       \<or> (map fst rf = [''success'', ''agent_type'', ''error'', ''content'', ''jurisdiction'']
        \<and> map_of rf ''success'' = Some (PyBool False)
        \<and> map_of rf ''content'' = Some (PyStr [])))"
    if "fst (run_single_agent kickoff ev w q j agent_type mf dt) = rs"
      and "fst (run_full_crew kickoff ev w q j mf dt) = rf" for rs rf
    using run_single_agent_forms [of kickoff ev w q j agent_type mf dt]
      run_full_crew_forms [of kickoff ev w q j mf dt]
    unfolding that
    by (elim disjE exE) (simp_all add: single_failure_def full_failure_def)
  show ?thesis
    using s [OF refl refl] run_single_agent_agent_type [of ev kickoff w q j agent_type mf dt]
    by blast
qed

text \<open>
  Claim C2, amended, at the query \<open>hello\<close> with an executor that raises: the set-up
  has not failed, and the result has the failed form with the resolved role.
\<close>

theorem result_shapes_witness:
  "setup_failure plain_env = None
   \<and> map_of (fst (run_single_agent raising_kickoff plain_env () ''hello'' ''kansas'' [] [] []))
        ''agent_type'' = Some (PyStr ''strategist'')
   \<and> map fst (fst (run_single_agent raising_kickoff plain_env () ''hello'' ''kansas'' [] [] [])) =
        [''success'', ''agent_type'', ''error'', ''content'', ''jurisdiction'']
   \<and> map fst (fst (run_full_crew raising_kickoff plain_env () ''hello'' ''kansas'' [] [])) =
        [''success'', ''agent_type'', ''error'', ''content'', ''jurisdiction'']"
proof -
  have h: "setup_failure plain_env = None"
    by (simp add: plain_env_def)
  show ?thesis
    using h result_shapes [of raising_kickoff plain_env "()" "''hello''" "''kansas''" "[]" "[]" "[]"]
    by (simp add: run_single_hello_raises run_full_hello_raises)
qed

text \<open>
  Claim C2 as stated fails at the query \<open>hello\<close>: the successful and the failed
  results of \<open>run_single_agent\<close>, and those of \<open>run_full_crew\<close>, do not have the same
  fields.
\<close>

theorem result_shapes_counterexample:
  "map fst (fst (run_single_agent succeeding_kickoff plain_env () ''hello'' ''kansas'' [] [] [])) =
     [''success'', ''agent_type'', ''content'', ''jurisdiction'', ''model'', ''token_usage'']
   \<and> map fst (fst (run_single_agent raising_kickoff plain_env () ''hello'' ''kansas'' [] [] [])) =
     [''success'', ''agent_type'', ''error'', ''content'', ''jurisdiction'']
   \<and> ''model'' \<in> set (map fst
        (fst (run_single_agent succeeding_kickoff plain_env () ''hello'' ''kansas'' [] [] [])))
   \<and> ''model'' \<notin> set (map fst
        (fst (run_single_agent raising_kickoff plain_env () ''hello'' ''kansas'' [] [] [])))
   \<and> map fst (fst (run_full_crew succeeding_kickoff plain_env () ''hello'' ''kansas'' [] [])) =
     [''success'', ''agent_type'', ''content'', ''jurisdiction'', ''model'', ''agents_used'',
      ''tasks_completed'', ''token_usage'']
   \<and> map fst (fst (run_full_crew raising_kickoff plain_env () ''hello'' ''kansas'' [] [])) =
     [''success'', ''agent_type'', ''error'', ''content'', ''jurisdiction'']
   \<and> ''agents_used'' \<in> set (map fst
        (fst (run_full_crew succeeding_kickoff plain_env () ''hello'' ''kansas'' [] [])))
   \<and> ''agents_used'' \<notin> set (map fst
        (fst (run_full_crew raising_kickoff plain_env () ''hello'' ''kansas'' [] [])))"
  by (simp add: run_single_hello_ok run_single_hello_raises run_full_hello_ok
      run_full_hello_raises)

lemma run_single_agent_any_caught:
  "run_single_agent_any (caught_only kickoff) (caught_env ev) w q j a mf dt =
     (Inr (fst (run_single_agent kickoff ev w q j a mf dt)),
      snd (run_single_agent kickoff ev w q j a mf dt))"
  by (simp add: run_single_agent_any_def run_single_agent_def caught_only_def caught_env_def
      split: option.splits prod.splits sum.splits)

lemma run_full_crew_any_caught:
  "run_full_crew_any (caught_only kickoff) (caught_env ev) w q j mf dt =
     (Inr (fst (run_full_crew kickoff ev w q j mf dt)),
      snd (run_full_crew kickoff ev w q j mf dt))"
  by (simp add: run_full_crew_any_def run_full_crew_def caught_only_def caught_env_def Let_def
      split: option.splits prod.splits sum.splits)

text \<open>
  Claim C10, amended. When neither the set-up nor the executor raises an exception
  outside class \<open>Exception\<close>, \<open>run_single_agent\<close> and \<open>run_full_crew\<close> propagate
  nothing: whatever else the executor does, raising included, they return a
  dictionary that holds \<open>success\<close>, \<open>agent_type\<close>, \<open>content\<close> and \<open>jurisdiction\<close>.
\<close>

theorem results_returned_unless_uncaught:
  "(\<forall>b. setup_raises ev \<noteq> Some (Uncaught b))
   \<and> (\<forall>w agents tasks. \<not> is_uncaught (fst (kickoff w agents tasks)))
   \<longrightarrow>
   (\<exists>d b a c. fst (run_single_agent_any kickoff ev w q j agent_type mf dt) = Inr d
       \<and> map_of d ''success'' = Some (PyBool b)
       \<and> map_of d ''agent_type'' = Some (PyStr a)
       \<and> map_of d ''content'' = Some (PyStr c)
       \<and> map_of d ''jurisdiction'' = Some (PyStr j))
   \<and> (\<exists>d b a c. fst (run_full_crew_any kickoff ev w q j mf dt) = Inr d
       \<and> map_of d ''success'' = Some (PyBool b)
       \<and> map_of d ''agent_type'' = Some (PyStr a)
       \<and> map_of d ''content'' = Some (PyStr c)
       \<and> map_of d ''jurisdiction'' = Some (PyStr j))"
proof (intro impI)
  assume h: "(\<forall>b. setup_raises ev \<noteq> Some (Uncaught b))
   \<and> (\<forall>w agents tasks. \<not> is_uncaught (fst (kickoff w agents tasks)))"
  have k: "kickoff w' ags ts \<noteq> (Inl (Uncaught b), w'')" for w' ags ts b w''
  proof
    assume "kickoff w' ags ts = (Inl (Uncaught b), w'')"
    then have "is_uncaught (fst (kickoff w' ags ts))" by (simp add: is_uncaught_def)
    with h show False by blast
  qed
  have s: "setup_raises ev \<noteq> Some (Uncaught b)" for b using h by blast
  have one: "\<exists>d b a c. fst (run_single_agent_any kickoff ev w q j agent_type mf dt) = Inr d
       \<and> map_of d ''success'' = Some (PyBool b)
       \<and> map_of d ''agent_type'' = Some (PyStr a)
       \<and> map_of d ''content'' = Some (PyStr c)
       \<and> map_of d ''jurisdiction'' = Some (PyStr j)"
    using k s
    by (auto simp: run_single_agent_any_def single_failure_def
        split: option.splits prod.splits sum.splits raised.splits)
  have two: "\<exists>d b a c. fst (run_full_crew_any kickoff ev w q j mf dt) = Inr d
       \<and> map_of d ''success'' = Some (PyBool b)
       \<and> map_of d ''agent_type'' = Some (PyStr a)
       \<and> map_of d ''content'' = Some (PyStr c)
       \<and> map_of d ''jurisdiction'' = Some (PyStr j)"
    using k s
    by (auto simp: run_full_crew_any_def full_failure_def Let_def
        split: option.splits prod.splits sum.splits raised.splits)
  from one two show "(\<exists>d b a c. fst (run_single_agent_any kickoff ev w q j agent_type mf dt) = Inr d
       \<and> map_of d ''success'' = Some (PyBool b)
       \<and> map_of d ''agent_type'' = Some (PyStr a)
       \<and> map_of d ''content'' = Some (PyStr c)
       \<and> map_of d ''jurisdiction'' = Some (PyStr j))
   \<and> (\<exists>d b a c. fst (run_full_crew_any kickoff ev w q j mf dt) = Inr d
       \<and> map_of d ''success'' = Some (PyBool b)
       \<and> map_of d ''agent_type'' = Some (PyStr a)
       \<and> map_of d ''content'' = Some (PyStr c)
       \<and> map_of d ''jurisdiction'' = Some (PyStr j))" by (rule conjI)
qed

text \<open>Claim C10, amended, at the query \<open>hello\<close> with an executor that raises.\<close>

theorem results_returned_unless_uncaught_witness:
  "(\<forall>b. setup_raises (caught_env plain_env) \<noteq> Some (Uncaught b))
   \<and> (\<forall>w agents tasks. \<not> is_uncaught (fst (caught_only raising_kickoff w agents tasks)))
   \<and> (\<exists>d. fst (run_single_agent_any (caught_only raising_kickoff) (caught_env plain_env) ()
              ''hello'' ''kansas'' [] [] []) = Inr d
          \<and> map_of d ''success'' = Some (PyBool False))
   \<and> (\<exists>d. fst (run_full_crew_any (caught_only raising_kickoff) (caught_env plain_env) ()
              ''hello'' ''kansas'' [] []) = Inr d
          \<and> map_of d ''success'' = Some (PyBool False))"
proof -
  have h1: "\<forall>b. setup_raises (caught_env plain_env) \<noteq> Some (Uncaught b)"
    by (simp add: caught_env_def plain_env_def)
  have h2: "\<forall>w agents tasks. \<not> is_uncaught (fst (caught_only raising_kickoff w agents tasks))"
    by (simp add: caught_only_def raising_kickoff_def is_uncaught_def)
  note t = results_returned_unless_uncaught [of "caught_env plain_env" "caught_only raising_kickoff"
      "()" "''hello''" "''kansas''" "[]" "[]" "[]", THEN mp, OF conjI [OF h1 h2]]
  have s: "fst (run_single_agent_any (caught_only raising_kickoff) (caught_env plain_env) ()
              ''hello'' ''kansas'' [] [] []) =
      Inr (fst (run_single_agent raising_kickoff plain_env () ''hello'' ''kansas'' [] [] []))"
    by (simp add: run_single_agent_any_caught)
  have f: "fst (run_full_crew_any (caught_only raising_kickoff) (caught_env plain_env) ()
              ''hello'' ''kansas'' [] []) =
      Inr (fst (run_full_crew raising_kickoff plain_env () ''hello'' ''kansas'' [] []))"
    by (simp add: run_full_crew_any_caught)
  have s2: "\<exists>d. fst (run_single_agent_any (caught_only raising_kickoff) (caught_env plain_env) ()
              ''hello'' ''kansas'' [] [] []) = Inr d
          \<and> map_of d ''success'' = Some (PyBool False)"
    using t unfolding s by (simp add: run_single_hello_raises)
  have f2: "\<exists>d. fst (run_full_crew_any (caught_only raising_kickoff) (caught_env plain_env) ()
              ''hello'' ''kansas'' [] []) = Inr d
          \<and> map_of d ''success'' = Some (PyBool False)"
    using t unfolding f by (simp add: run_full_hello_raises)
  from h1 h2 s2 f2 show ?thesis by (intro conjI)
qed

text \<open>
  Claim C10 as stated fails when the executor raises \<open>KeyboardInterrupt\<close>: the
  handler does not catch it, no dictionary is returned and the exception reaches
  the caller.
\<close>

theorem results_propagate_counterexample:
  "run_single_agent_any interrupted_kickoff plain_env_any () ''hello'' ''kansas'' [] [] [] =
     (Inl ''KeyboardInterrupt'', ())
   \<and> run_full_crew_any interrupted_kickoff plain_env_any () ''hello'' ''kansas'' [] [] =
     (Inl ''KeyboardInterrupt'', ())"
  by (simp add: run_single_agent_any_def run_full_crew_any_def interrupted_kickoff_def
      plain_env_any_def single_agent_plan_kind classify_hello agents_lookup Let_def)

text \<open>
  Claim C9. A forced role that is not empty and is none of researcher, analyst,
  drafter, strategist makes \<open>run_single_agent\<close> fail at the agent lookup: the result
  is the failed one, carrying the role as given and the lookup's \<open>KeyError\<close> (or the
  set-up's exception, had the set-up failed first); the executor is not called, so
  the world is left as it was, for every executor.
\<close>

theorem unknown_role_fails_fast:
  assumes "agent_type \<noteq> []"
    and "agent_type \<notin> {''researcher'', ''analyst'', ''drafter'', ''strategist''}"
  shows "run_single_agent kickoff ev w q j agent_type mf dt =
     ([(''success'', PyBool False),
       (''agent_type'', PyStr agent_type),
       (''error'', PyExnStr (case setup_failure ev of Some e \<Rightarrow> e | None \<Rightarrow> KeyError agent_type)),
       (''content'', PyStr []),
       (''jurisdiction'', PyStr j)], w)"
  using assms
  by (simp add: run_single_agent_def single_agent_plan_kind agents_lookup single_failure_def
      str_or_def Let_def split: option.splits)

text \<open>
  Claim C9 at the role \<open>paralegal\<close>, with the sequential executor over an engine
  that counts its calls: no call is logged.
\<close>

theorem unknown_role_fails_fast_witness:
  "''paralegal'' \<noteq> [] \<and> ''paralegal'' \<notin> {''researcher'', ''analyst'', ''drafter'', ''strategist''}
   \<and> run_single_agent (crew_kickoff fails_on_second) plain_env (0, []) ''hello'' ''kansas''
        ''paralegal'' [] [] =
     ([(''success'', PyBool False),
       (''agent_type'', PyStr ''paralegal''),
       (''error'', PyExnStr (KeyError ''paralegal'')),
       (''content'', PyStr []),
       (''jurisdiction'', PyStr ''kansas'')], (0, []))"
proof -
  have h1: "''paralegal'' \<noteq> []" by simp
  have h2: "''paralegal'' \<notin> {''researcher'', ''analyst'', ''drafter'', ''strategist''}" by simp
  show ?thesis
    using h1 h2 unknown_role_fails_fast [OF h1 h2, of "crew_kickoff fails_on_second" plain_env
        "(0, [])" "''hello''" "''kansas''" "[]" "[]"]
    by (simp add: plain_env_def)
qed

section \<open>Properties of the sequential executor\<close>

lemma execute_tasks_append:
  "execute_tasks eng (xs @ ys) acc w =
     (case execute_tasks eng xs acc w of
        (Inl e, w') \<Rightarrow> (Inl e, w')
      | (Inr cs, w') \<Rightarrow> execute_tasks eng ys cs w')"
proof (induction xs arbitrary: acc w)
  case Nil
  then show ?case by simp
next
  case (Cons t ts)
  obtain s calls where w: "w = (s, calls)" by (cases w)
  show ?case
    by (simp add: w Cons.IH split: prod.splits sum.splits)
qed

lemma execute_tasks_calls:
  "execute_tasks eng xs acc (s, calls) = (Inr cs, (s', calls')) \<Longrightarrow> calls' = calls @ xs"
proof (induction xs arbitrary: acc s calls)
  case Nil
  then show ?case by simp
next
  case (Cons t ts)
  from Cons.prems obtain c s1 where
    step: "eng s t = (Inr c, s1)"
    and rest: "execute_tasks eng ts (acc @ [c]) (s1, calls @ [t]) = (Inr cs, (s', calls'))"
    by (auto split: prod.splits sum.splits)
  from Cons.IH [OF rest] show ?case by simp
qed

lemma execute_tasks_fails_at:
  assumes n: "n < length ts"
    and before: "execute_tasks eng (take n ts) [] (s, calls) = (Inr cs, (s1, calls1))"
    and fails: "eng s1 (ts ! n) = (Inl e, s2)"
  shows "execute_tasks eng ts [] (s, calls) = (Inl e, (s2, calls @ take (Suc n) ts))"
proof -
  have split: "ts = take n ts @ (ts ! n) # drop (Suc n) ts"
    using n by (simp add: id_take_nth_drop)
  have c1: "calls1 = calls @ take n ts"
    using execute_tasks_calls [OF before] .
  have "execute_tasks eng ts [] (s, calls) =
        execute_tasks eng (take n ts @ (ts ! n) # drop (Suc n) ts) [] (s, calls)"
    using split by simp
  also have "\<dots> = execute_tasks eng ((ts ! n) # drop (Suc n) ts) cs (s1, calls1)"
    by (simp only: execute_tasks_append before) simp
  also have "\<dots> = (Inl e, (s2, calls1 @ [ts ! n]))"
    by (simp add: fails)
  also have "calls1 @ [ts ! n] = calls @ take (Suc n) ts"
    using n by (simp add: c1 take_Suc_conv_app_nth)
  finally show ?thesis .
qed

text \<open>
  Claim C4. When the executor raises, \<open>run_full_crew\<close> returns the failed result
  (success false, the error of the failure, empty content, no output and no token
  usage) and leaves the world as the executor left it. Under the sequential executor,
  when the engine succeeds on the first \<open>n\<close> tasks and fails on the next, the calls
  issued are those \<open>n + 1\<close> tasks and no other.
\<close>

theorem full_crew_engine_failure_aborts:
  "(setup_failure ev = None
    \<and> kickoff w [researcher, analyst, drafter, strategist] (full_crew_tasks q j mf dt) = (Inl e, w')
    \<longrightarrow> run_full_crew kickoff ev w q j mf dt =
       ([(''success'', PyBool False),
         (''agent_type'', PyStr ''full_crew''),
         (''error'', PyExnStr e),
         (''content'', PyStr []),
         (''jurisdiction'', PyStr j)], w'))
   \<and> (setup_failure ev = None
      \<and> n < length (full_crew_tasks q j mf dt)
      \<and> execute_tasks eng (take n (full_crew_tasks q j mf dt)) [] (s, calls) = (Inr cs, (s1, calls1))
      \<and> eng s1 (full_crew_tasks q j mf dt ! n) = (Inl e, s2)
      \<longrightarrow> run_full_crew (crew_kickoff eng) ev (s, calls) q j mf dt =
         ([(''success'', PyBool False),
           (''agent_type'', PyStr ''full_crew''),
           (''error'', PyExnStr e),
           (''content'', PyStr []),
           (''jurisdiction'', PyStr j)],
          (s2, calls @ take (Suc n) (full_crew_tasks q j mf dt))))"
proof (intro conjI impI)
  assume "setup_failure ev = None
    \<and> kickoff w [researcher, analyst, drafter, strategist] (full_crew_tasks q j mf dt) = (Inl e, w')"
  then show "run_full_crew kickoff ev w q j mf dt =
       ([(''success'', PyBool False),
         (''agent_type'', PyStr ''full_crew''),
         (''error'', PyExnStr e),
         (''content'', PyStr []),
         (''jurisdiction'', PyStr j)], w')"
    by (simp add: run_full_crew_cases full_failure_def)
next
  assume h: "setup_failure ev = None
      \<and> n < length (full_crew_tasks q j mf dt)
      \<and> execute_tasks eng (take n (full_crew_tasks q j mf dt)) [] (s, calls) = (Inr cs, (s1, calls1))
      \<and> eng s1 (full_crew_tasks q j mf dt ! n) = (Inl e, s2)"
  then have n: "n < length (full_crew_tasks q j mf dt)"
    and before: "execute_tasks eng (take n (full_crew_tasks q j mf dt)) [] (s, calls) =
        (Inr cs, (s1, calls1))"
    and fails: "eng s1 (full_crew_tasks q j mf dt ! n) = (Inl e, s2)"
    by simp_all
  have k: "crew_kickoff eng (s, calls) [researcher, analyst, drafter, strategist]
          (full_crew_tasks q j mf dt) =
        (Inl e, (s2, calls @ take (Suc n) (full_crew_tasks q j mf dt)))"
    using execute_tasks_fails_at [OF n before fails]
    by (simp add: crew_kickoff_def)
  show "run_full_crew (crew_kickoff eng) ev (s, calls) q j mf dt =
         ([(''success'', PyBool False),
           (''agent_type'', PyStr ''full_crew''),
           (''error'', PyExnStr e),
           (''content'', PyStr []),
           (''jurisdiction'', PyStr j)],
          (s2, calls @ take (Suc n) (full_crew_tasks q j mf dt)))"
    using h k by (simp add: run_full_crew_cases full_failure_def)
qed

text \<open>
  Claim C4 at the query \<open>hello\<close> (three tasks) with an engine that fails on its
  second call: two calls are logged, the third task is never submitted.
\<close>

theorem full_crew_engine_failure_aborts_witness:
  "setup_failure plain_env = None
   \<and> raising_kickoff () [researcher, analyst, drafter, strategist]
        (full_crew_tasks ''hello'' ''kansas'' [] []) = (Inl (Failure ''timeout''), ())
   \<and> (1::nat) < length (full_crew_tasks ''hello'' ''kansas'' [] [])
   \<and> execute_tasks fails_on_second (take 1 (full_crew_tasks ''hello'' ''kansas'' [] [])) [] (0, []) =
        (Inr [\<lparr>text_out = ''part'', total_tokens = 10\<rparr>],
         (1, [create_research_task researcher ''hello'' (jx_display ''kansas'')]))
   \<and> fails_on_second 1 (full_crew_tasks ''hello'' ''kansas'' [] [] ! 1) = (Inl (Failure ''timeout''), 2)
   \<and> run_full_crew raising_kickoff plain_env () ''hello'' ''kansas'' [] [] =
     ([(''success'', PyBool False),
       (''agent_type'', PyStr ''full_crew''),
       (''error'', PyExnStr (Failure ''timeout'')),
       (''content'', PyStr []),
       (''jurisdiction'', PyStr ''kansas'')], ())
   \<and> run_full_crew (crew_kickoff fails_on_second) plain_env (0, []) ''hello'' ''kansas'' [] [] =
     ([(''success'', PyBool False),
       (''agent_type'', PyStr ''full_crew''),
       (''error'', PyExnStr (Failure ''timeout'')),
       (''content'', PyStr []),
       (''jurisdiction'', PyStr ''kansas'')],
      (2, [create_research_task researcher ''hello'' (jx_display ''kansas''),
           create_analysis_task analyst ''hello'' (jx_display ''kansas'') []]))
   \<and> length (full_crew_tasks ''hello'' ''kansas'' [] []) = 3"
proof -
  have h1: "setup_failure plain_env = None"
    by (simp add: plain_env_def)
  have h0: "raising_kickoff () [researcher, analyst, drafter, strategist]
        (full_crew_tasks ''hello'' ''kansas'' [] []) = (Inl (Failure ''timeout''), ())"
    by (simp add: raising_kickoff_def)
  have h2: "(1::nat) < length (full_crew_tasks ''hello'' ''kansas'' [] [])"
    by (simp add: tasks_hello)
  have h3: "execute_tasks fails_on_second (take 1 (full_crew_tasks ''hello'' ''kansas'' [] [])) []
        (0, []) =
        (Inr [\<lparr>text_out = ''part'', total_tokens = 10\<rparr>],
         (1, [create_research_task researcher ''hello'' (jx_display ''kansas'')]))"
    by (simp add: tasks_hello fails_on_second_def)
  have h4: "fails_on_second 1 (full_crew_tasks ''hello'' ''kansas'' [] [] ! 1) =
        (Inl (Failure ''timeout''), 2)"
    by (simp add: fails_on_second_def)
  have a: "run_full_crew raising_kickoff plain_env () ''hello'' ''kansas'' [] [] =
     ([(''success'', PyBool False),
       (''agent_type'', PyStr ''full_crew''),
       (''error'', PyExnStr (Failure ''timeout'')),
       (''content'', PyStr []),
       (''jurisdiction'', PyStr ''kansas'')], ())"
    by (rule full_crew_engine_failure_aborts [where ev = plain_env and kickoff = raising_kickoff
          and w = "()" and w' = "()" and q = "''hello''" and j = "''kansas''" and mf = "[]"
          and dt = "[]" and e = "Failure ''timeout''",
          THEN conjunct1, THEN mp, OF conjI [OF h1 h0]])
  have b: "run_full_crew (crew_kickoff fails_on_second) plain_env (0, []) ''hello'' ''kansas'' [] [] =
     ([(''success'', PyBool False),
       (''agent_type'', PyStr ''full_crew''),
       (''error'', PyExnStr (Failure ''timeout'')),
       (''content'', PyStr []),
       (''jurisdiction'', PyStr ''kansas'')],
      (2, [] @ take (Suc 1) (full_crew_tasks ''hello'' ''kansas'' [] [])))"
    by (rule full_crew_engine_failure_aborts [where ev = plain_env and q = "''hello''"
          and j = "''kansas''" and mf = "[]" and dt = "[]" and n = 1 and eng = fails_on_second
          and s = 0 and calls = "[]"
          and cs = "[\<lparr>text_out = ''part'', total_tokens = 10\<rparr>]" and ?s1.0 = 1
          and ?calls1.0 = "[create_research_task researcher ''hello'' (jx_display ''kansas'')]"
          and e = "Failure ''timeout''" and ?s2.0 = 2,
          THEN conjunct2, THEN mp, OF conjI [OF h1 conjI [OF h2 conjI [OF h3 h4]]]])
  show ?thesis
    using h0 h1 h2 h3 h4 a b by (simp add: tasks_hello)
qed

end
